theory Spec2Isabelle
  imports Complex_Main
begin

section \<open>Python values\<close>

text \<open>
  The analyzer, the scoring step and the report generator work on JSON-like Python
  values: resources, analyzer candidates and findings are dictionaries with string keys.
  A dictionary is an association list in insertion order; a lookup takes the first
  binding of a key. A Python float is modelled by the rational number it denotes, with
  exact arithmetic: rounding to 53 bits, infinities and NaN are outside the model.
  Strings are byte strings.
\<close>

datatype pyval =
    PNone
  | PBool bool
  | PInt int
  | PFloat rat
  | PStr string
  | PList "pyval list"
  | PDict "(string \<times> pyval) list"

type_synonym dict = "(string \<times> pyval) list"

text \<open>The exceptions (all subclasses of Python's \<open>Exception\<close>) that the modelled code can raise.\<close>

datatype exn =
    AttributeError
  | TypeError
  | ClientError string
  | Exception string

text \<open>\<open>d.get(key, default)\<close> and \<open>d.get(key)\<close> on a dictionary.\<close>

definition dict_get :: "dict \<Rightarrow> string \<Rightarrow> pyval \<Rightarrow> pyval" where
  "dict_get d k dflt = (case map_of d k of None \<Rightarrow> dflt | Some v \<Rightarrow> v)"

definition dict_get_none :: "dict \<Rightarrow> string \<Rightarrow> pyval" where
  "dict_get_none d k = dict_get d k PNone"

text \<open>
  \<open>v.get(key, default)\<close> on an arbitrary value: only a dictionary has the method,
  every other JSON value raises \<open>AttributeError\<close>.
\<close>

fun py_get :: "pyval \<Rightarrow> string \<Rightarrow> pyval \<Rightarrow> exn + pyval" where
  "py_get (PDict d) k dflt = Inr (dict_get d k dflt)"
| "py_get _ k dflt = Inl AttributeError"

text \<open>Truth value of a Python value, as \<open>if v:\<close> and \<open>not v\<close> test it.\<close>

fun truthy :: "pyval \<Rightarrow> bool" where
  "truthy PNone = False"
| "truthy (PBool b) = b"
| "truthy (PInt i) = (i \<noteq> 0)"
| "truthy (PFloat r) = (r \<noteq> 0)"
| "truthy (PStr s) = (s \<noteq> [])"
| "truthy (PList xs) = (xs \<noteq> [])"
| "truthy (PDict d) = (d \<noteq> [])"

text \<open>\<open>p in s\<close> on two strings: \<open>p\<close> occurs in \<open>s\<close> as a contiguous substring.\<close>

fun str_contains :: "string \<Rightarrow> string \<Rightarrow> bool" where
  "str_contains [] p = (p = [])"
| "str_contains (c # cs) p = (take (length p) (c # cs) = p \<or> str_contains cs p)"

text \<open>
  \<open>s in v\<close> for a string \<open>s\<close>: membership in a list (by equality, and only a
  string equals a string), substring of a string, key of a dictionary; the other values
  are not containers and raise \<open>TypeError\<close>.
\<close>

fun py_in :: "string \<Rightarrow> pyval \<Rightarrow> exn + bool" where
  "py_in s (PList xs) = Inr (PStr s \<in> set xs)"
| "py_in s (PStr t) = Inr (str_contains t s)"
| "py_in s (PDict d) = Inr (s \<in> set (map fst d))"
| "py_in s _ = Inl TypeError"

text \<open>
  \<open>str.lower()\<close> on the ASCII letters; the other bytes are left as they are.
  Python lowers the letters beyond ASCII too (the Kelvin sign U+212A becomes \<open>k\<close>):
  the names of environment variables are taken to be ASCII.
\<close>

definition lower_char :: "char \<Rightarrow> char" where
  "lower_char c =
     (let n = (of_char c :: nat)
      in if of_char CHR ''A'' \<le> n \<and> n \<le> of_char CHR ''Z'' then char_of (n + 32) else c)"

definition lower :: "string \<Rightarrow> string" where
  "lower s = map lower_char s"

text \<open>
  Formatting a value inside an f-string, \<open>f'{v}'\<close>. A string is inserted as it is,
  \<open>None\<close> and the booleans by their names; the text of a number or of a container is
  produced by the interpreter's \<open>str\<close>, which the model takes as the parameter \<open>fmt\<close>.
\<close>

fun py_format :: "(pyval \<Rightarrow> string) \<Rightarrow> pyval \<Rightarrow> string" where
  "py_format fmt (PStr s) = s"
| "py_format fmt PNone = ''None''"
| "py_format fmt (PBool b) = (if b then ''True'' else ''False'')"
| "py_format fmt v = fmt v"

section \<open>The clock\<close>

text \<open>
  Every finding is stamped with \<open>datetime.utcnow().isoformat()\<close>. The clock is the
  sequence of the readings still to come; a reading takes the first one.
\<close>

type_synonym clock = "nat \<Rightarrow> string"

definition utcnow_isoformat :: "clock \<Rightarrow> string \<times> clock" where
  "utcnow_isoformat c = (c 0, \<lambda>n. c (Suc n))"

section \<open>compliance\_analyzer.py: the rule-based analysis\<close>

text \<open>
  The dictionary literal every rule appends; the keys are in the order of the source.
\<close>

definition finding_dict ::
  "string \<Rightarrow> string \<Rightarrow> pyval \<Rightarrow> pyval \<Rightarrow> pyval \<Rightarrow> string \<Rightarrow> pyval \<Rightarrow> pyval \<Rightarrow> string \<Rightarrow> string \<Rightarrow> dict" where
  "finding_dict title description severity resource_type resource_id framework risk steps
      requirement created =
     [(''title'', PStr title),
      (''description'', PStr description),
      (''severity'', severity),
      (''resourceType'', resource_type),
      (''resourceId'', resource_id),
      (''complianceFrameworks'', PList [PStr framework]),
      (''riskScore'', risk),
      (''remediationSteps'', steps),
      (''requirement'', PStr requirement),
      (''createdAt'', PStr created)]"

definition s3_public_access_finding ::
  "(pyval \<Rightarrow> string) \<Rightarrow> string \<Rightarrow> dict \<Rightarrow> pyval \<Rightarrow> string \<Rightarrow> dict" where
  "s3_public_access_finding fmt framework resource resource_type created =
     finding_dict (''S3 Bucket Public Access ('' @ framework @ '')'')
       (''S3 bucket '' @ py_format fmt (dict_get_none resource ''id'') @ '' has public access enabled'')
       (PStr ''HIGH'') resource_type (dict_get_none resource ''id'') framework (PInt 75)
       (PList [PStr ''Disable public access on S3 bucket'',
               PStr ''Review bucket policy for public permissions'',
               PStr ''Enable S3 Block Public Access''])
       (framework @ '': Data protection requirements'') created"

definition s3_encryption_finding ::
  "(pyval \<Rightarrow> string) \<Rightarrow> string \<Rightarrow> dict \<Rightarrow> pyval \<Rightarrow> string \<Rightarrow> dict" where
  "s3_encryption_finding fmt framework resource resource_type created =
     finding_dict (''S3 Bucket Encryption ('' @ framework @ '')'')
       (''S3 bucket '' @ py_format fmt (dict_get_none resource ''id'') @ '' does not have encryption enabled'')
       (PStr ''MEDIUM'') resource_type (dict_get_none resource ''id'') framework (PInt 60)
       (PList [PStr ''Enable S3 default encryption'',
               PStr ''Use AES-256 or AWS-KMS encryption''])
       (framework @ '': Encryption requirements'') created"

definition ec2_public_ip_finding ::
  "(pyval \<Rightarrow> string) \<Rightarrow> string \<Rightarrow> dict \<Rightarrow> pyval \<Rightarrow> string \<Rightarrow> dict" where
  "ec2_public_ip_finding fmt framework resource resource_type created =
     finding_dict (''EC2 Public IP Exposure ('' @ framework @ '')'')
       (''EC2 instance '' @ py_format fmt (dict_get_none resource ''id'') @ '' has a public IP address'')
       (PStr ''MEDIUM'') resource_type (dict_get_none resource ''id'') framework (PInt 50)
       (PList [PStr ''Review security group configurations'',
               PStr ''Consider using private subnets'',
               PStr ''Implement proper network access controls''])
       (framework @ '': Network security requirements'') created"

definition iam_wildcard_finding ::
  "(pyval \<Rightarrow> string) \<Rightarrow> string \<Rightarrow> dict \<Rightarrow> pyval \<Rightarrow> string \<Rightarrow> dict" where
  "iam_wildcard_finding fmt framework resource resource_type created =
     finding_dict (''Over-Privileged IAM Role ('' @ framework @ '')'')
       (''IAM role '' @ py_format fmt (dict_get_none resource ''id'') @ '' has wildcard permissions'')
       (PStr ''CRITICAL'') resource_type (dict_get_none resource ''id'') framework (PInt 90)
       (PList [PStr ''Remove wildcard permissions'',
               PStr ''Apply principle of least privilege'',
               PStr ''Use specific IAM actions only''])
       (framework @ '': Least privilege requirements'') created"

definition lambda_sensitive_finding ::
  "(pyval \<Rightarrow> string) \<Rightarrow> string \<Rightarrow> dict \<Rightarrow> pyval \<Rightarrow> string \<Rightarrow> dict" where
  "lambda_sensitive_finding fmt framework resource resource_type created =
     finding_dict (''Sensitive Data in Lambda Environment ('' @ framework @ '')'')
       (''Lambda function '' @ py_format fmt (dict_get_none resource ''id'')
          @ '' contains sensitive data in environment variables'')
       (PStr ''HIGH'') resource_type (dict_get_none resource ''id'') framework (PInt 70)
       (PList [PStr ''Remove sensitive data from environment variables'',
               PStr ''Use AWS Secrets Manager or Parameter Store'',
               PStr ''Update function configuration''])
       (framework @ '': Data protection requirements'') created"

text \<open>
  \<open>findings.append({..., 'createdAt': datetime.utcnow().isoformat()})\<close> when the
  rule's condition holds: one reading of the clock, one finding more.
\<close>

definition append_if ::
  "bool \<Rightarrow> (string \<Rightarrow> dict) \<Rightarrow> dict list \<times> clock \<Rightarrow> dict list \<times> clock" where
  "append_if cond mk st =
     (if cond then (let (t, c') = utcnow_isoformat (snd st) in (fst st @ [mk t], c'))
      else st)"

definition sensitive_patterns :: "string list" where
  "sensitive_patterns = [''password'', ''secret'', ''key'', ''token'']"

text \<open>
  \<open>env_vars.keys()\<close> and the nested \<open>any\<close>: some variable name, in lower case,
  contains one of the patterns. Only a dictionary has \<open>keys\<close>.
\<close>

fun has_sensitive :: "pyval \<Rightarrow> exn + bool" where
  "has_sensitive (PDict env_vars) =
     Inr (\<exists>var_name \<in> set (map fst env_vars).
            \<exists>pattern \<in> set sensitive_patterns. str_contains (lower var_name) pattern)"
| "has_sensitive _ = Inl AttributeError"

text \<open>
  \<open>ComplianceAnalyzer._rule_based_analysis(framework, resource)\<close>. \<open>config\<close> is
  read with \<open>.get\<close> only inside the branch of a known resource type, so a \<open>config\<close>
  that is no dictionary raises there and nowhere else.
\<close>

definition rule_based_analysis ::
  "(pyval \<Rightarrow> string) \<Rightarrow> string \<Rightarrow> dict \<Rightarrow> clock \<Rightarrow> exn + (dict list \<times> clock)" where
  "rule_based_analysis fmt framework resource c =
     (let resource_type = dict_get resource ''type'' (PStr '''');
          config = dict_get resource ''config'' (PDict [])
      in if resource_type = PStr ''S3_BUCKET'' then
           (case py_get config ''publicAccess'' (PBool False) of
              Inl e \<Rightarrow> Inl e
            | Inr public_access \<Rightarrow>
                (let st = append_if (truthy public_access)
                            (s3_public_access_finding fmt framework resource resource_type) ([], c)
                 in case py_get config ''encryption'' (PBool False) of
                      Inl e \<Rightarrow> Inl e
                    | Inr encryption \<Rightarrow>
                        Inr (append_if (\<not> truthy encryption)
                               (s3_encryption_finding fmt framework resource resource_type) st)))
         else if resource_type = PStr ''EC2_INSTANCE'' then
           (case py_get config ''publicIp'' (PBool False) of
              Inl e \<Rightarrow> Inl e
            | Inr public_ip \<Rightarrow>
                Inr (append_if (truthy public_ip)
                       (ec2_public_ip_finding fmt framework resource resource_type) ([], c)))
         else if resource_type = PStr ''IAM_ROLE'' then
           (case py_get config ''permissions'' (PList []) of
              Inl e \<Rightarrow> Inl e
            | Inr permissions \<Rightarrow>
                (case py_in ''*'' permissions of
                   Inl e \<Rightarrow> Inl e
                 | Inr wildcard \<Rightarrow>
                     Inr (append_if wildcard
                            (iam_wildcard_finding fmt framework resource resource_type) ([], c))))
         else if resource_type = PStr ''LAMBDA_FUNCTION'' then
           (case py_get config ''environmentVariables'' (PDict []) of
              Inl e \<Rightarrow> Inl e
            | Inr env_vars \<Rightarrow>
                (case has_sensitive env_vars of
                   Inl e \<Rightarrow> Inl e
                 | Inr sensitive \<Rightarrow>
                     Inr (append_if sensitive
                            (lambda_sensitive_finding fmt framework resource resource_type) ([], c))))
         else Inr ([], c))"

section \<open>compliance\_analyzer.py: parsing the analyzer's answer\<close>

text \<open>
  The dictionary literal \<open>structured_finding\<close> of \<open>_parse_analysis_result\<close>, for a
  candidate that is a dictionary: every field of the candidate is copied with
  \<open>finding.get(key, default)\<close>, the resource's type and id with the default
  \<open>'Unknown'\<close>.
\<close>

definition candidate_finding :: "string \<Rightarrow> dict \<Rightarrow> dict \<Rightarrow> string \<Rightarrow> dict" where
  "candidate_finding framework resource finding created =
     [(''title'', dict_get finding ''title'' (PStr (framework @ '' Compliance Issue''))),
      (''description'', dict_get finding ''description'' (PStr ''Compliance violation detected'')),
      (''severity'', dict_get finding ''severity'' (PStr ''MEDIUM'')),
      (''resourceType'', dict_get resource ''type'' (PStr ''Unknown'')),
      (''resourceId'', dict_get resource ''id'' (PStr ''Unknown'')),
      (''complianceFrameworks'', PList [PStr framework]),
      (''riskScore'', dict_get finding ''riskScore'' (PInt 50)),
      (''remediationSteps'', dict_get finding ''remediationSteps'' (PList [])),
      (''requirement'', dict_get finding ''requirement'' (PStr (framework @ '' requirement''))),
      (''createdAt'', PStr created)]"

text \<open>
  One candidate of the answer. The literal starts with \<open>finding.get('title', ...)\<close>,
  which raises \<open>AttributeError\<close> on a candidate that is no dictionary.
\<close>

fun structured_finding :: "string \<Rightarrow> dict \<Rightarrow> pyval \<Rightarrow> string \<Rightarrow> exn + dict" where
  "structured_finding framework resource (PDict finding) created =
     Inr (candidate_finding framework resource finding created)"
| "structured_finding framework resource _ created = Inl AttributeError"

text \<open>The loop \<open>for finding in analysis_result: ... findings.append(structured_finding)\<close>.\<close>

fun parse_candidates ::
  "string \<Rightarrow> dict \<Rightarrow> pyval list \<Rightarrow> dict list \<times> clock \<Rightarrow> exn + (dict list \<times> clock)" where
  "parse_candidates framework resource [] st = Inr st"
| "parse_candidates framework resource (finding # rest) st =
     (let (t, c') = utcnow_isoformat (snd st)
      in case structured_finding framework resource finding t of
           Inl e \<Rightarrow> Inl e
         | Inr sf \<Rightarrow> parse_candidates framework resource rest (fst st @ [sf], c'))"

text \<open>
  \<open>ComplianceAnalyzer._parse_analysis_result(framework, resource, analysis_result)\<close>:
  an answer that is not a list gives no finding.
\<close>

definition parse_analysis_result ::
  "string \<Rightarrow> dict \<Rightarrow> pyval \<Rightarrow> clock \<Rightarrow> exn + (dict list \<times> clock)" where
  "parse_analysis_result framework resource analysis_result c =
     (case analysis_result of
        PList candidates \<Rightarrow> parse_candidates framework resource candidates ([], c)
      | _ \<Rightarrow> Inr ([], c))"

section \<open>main.py: the scoring step of audit\_compliance\<close>

text \<open>
  The value a riskScore contributes to \<open>sum(...)\<close>: integers, floats and booleans
  (a \<open>bool\<close> is an \<open>int\<close> in Python) are numbers, every other value makes the
  addition raise \<open>TypeError\<close>.
\<close>

fun py_number :: "pyval \<Rightarrow> exn + rat" where
  "py_number (PInt i) = Inr (of_int i)"
| "py_number (PFloat x) = Inr x"
| "py_number (PBool b) = Inr (if b then 1 else 0)"
| "py_number _ = Inl TypeError"

text \<open>\<open>sum(values)\<close>: the additions run from left to right, starting at 0.\<close>

fun py_sum :: "pyval list \<Rightarrow> rat \<Rightarrow> exn + rat" where
  "py_sum [] acc = Inr acc"
| "py_sum (v # vs) acc =
     (case py_number v of Inl e \<Rightarrow> Inl e | Inr x \<Rightarrow> py_sum vs (acc + x))"

text \<open>
  Lines 59 to 63: the score of one framework from the findings
  \<open>analyze_compliance\<close> returned for it. The quotient and the difference are
  exact here. In Python both are doubles: they round, and the quotient of an integer sum
  beyond the range of a double raises \<open>OverflowError\<close>. On riskScores that are
  integers in [0, 100] nothing overflows, and a score of a framework stays in [0, 100]
  after rounding as well, since rounding is monotone and 0 and 100 are doubles. The
  bounds proved below are about such riskScores.
\<close>

definition framework_score :: "dict list \<Rightarrow> exn + rat" where
  "framework_score framework_findings =
     (if framework_findings \<noteq> [] then
        (case py_sum (map (\<lambda>finding. dict_get finding ''riskScore'' (PInt 50))
                       framework_findings) 0 of
           Inl e \<Rightarrow> Inl e
         | Inr risk_sum \<Rightarrow>
             (let avg_risk = risk_sum / of_nat (length framework_findings)
              in Inr (max 0 (100 - avg_risk))))
      else Inr 100)"

text \<open>
  \<open>compliance_scores[framework] = score\<close> on a dictionary in insertion order: a key
  that is present keeps its place and takes the new value, a new key goes to the end.
\<close>

fun dict_set :: "(string \<times> 'v) list \<Rightarrow> string \<Rightarrow> 'v \<Rightarrow> (string \<times> 'v) list" where
  "dict_set [] k v = [(k, v)]"
| "dict_set ((k', v') # d) k v = (if k' = k then (k, v) # d else (k', v') # dict_set d k v)"

text \<open>
  The loop over \<open>compliance_frameworks\<close> (lines 53 to 63). The analysis itself calls
  an external model; the loop is given its outcome: \<open>runs\<close> pairs each requested
  framework, in the order of the request, with the findings \<open>analyze_compliance\<close>
  returned for it. The state is \<open>(all_findings, compliance_scores)\<close>.
\<close>

fun score_loop ::
  "(string \<times> dict list) list \<Rightarrow> dict list \<times> (string \<times> rat) list
     \<Rightarrow> exn + (dict list \<times> (string \<times> rat) list)" where
  "score_loop [] st = Inr st"
| "score_loop ((framework, framework_findings) # rest) st =
     (case framework_score framework_findings of
        Inl e \<Rightarrow> Inl e
      | Inr score \<Rightarrow>
          score_loop rest (fst st @ framework_findings, dict_set (snd st) framework score))"

text \<open>Line 67: the mean of the values of \<open>compliance_scores\<close>, or 100.0 when it is empty.\<close>

definition overall_score :: "(string \<times> rat) list \<Rightarrow> rat" where
  "overall_score compliance_scores =
     (if compliance_scores \<noteq> [] then
        sum_list (map snd compliance_scores) / of_nat (length compliance_scores)
      else 100)"

section \<open>report\_generator.py\<close>

text \<open>
  The report generator draws identifiers from \<open>uuid.uuid4()\<close> and reads the clock.
  The world holds, for each, the texts the coming calls produce (the text of a clock
  reading is the one its call renders, with \<open>isoformat\<close> or \<open>strftime\<close>).
\<close>

record world =
  uuid4s :: "nat \<Rightarrow> string"
  utcnows :: "nat \<Rightarrow> string"

definition uuid4 :: "world \<Rightarrow> string \<times> world" where
  "uuid4 w = (uuid4s w 0, w\<lparr>uuid4s := \<lambda>n. uuid4s w (Suc n)\<rparr>)"

definition utcnow :: "world \<Rightarrow> string \<times> world" where
  "utcnow w = (utcnows w 0, w\<lparr>utcnows := \<lambda>n. utcnows w (Suc n)\<rparr>)"

text \<open>
  The generator object: its S3 client, an external service whose two calls either return
  or raise, and the attribute \<open>reports_bucket\<close>. The calls take their keyword
  arguments as a dictionary.
\<close>

record generator =
  put_object :: "dict \<Rightarrow> exn option"
  generate_presigned_url :: "string \<Rightarrow> dict \<Rightarrow> int \<Rightarrow> exn + string"
  reports_bucket :: "string option"

text \<open>
  \<open>str(e)\<close>: the message of an exception. An exception built by the code or raised
  by the client carries its message; the text of an exception of the interpreter is the
  parameter \<open>msg_of\<close>.
\<close>

fun py_str_exn :: "(exn \<Rightarrow> string) \<Rightarrow> exn \<Rightarrow> string" where
  "py_str_exn msg_of (Exception m) = m"
| "py_str_exn msg_of (ClientError m) = m"
| "py_str_exn msg_of e = msg_of e"

text \<open>\<open>[f for f in findings if f.get('severity') == severity]\<close>.\<close>

fun severity_bucket :: "string \<Rightarrow> pyval list \<Rightarrow> exn + pyval list" where
  "severity_bucket severity [] = Inr []"
| "severity_bucket severity (f # findings) =
     (case py_get f ''severity'' PNone of
        Inl e \<Rightarrow> Inl e
      | Inr v \<Rightarrow>
          (case severity_bucket severity findings of
             Inl e \<Rightarrow> Inl e
           | Inr rest \<Rightarrow> Inr (if v = PStr severity then f # rest else rest)))"

text \<open>The dictionary \<open>findings_by_severity\<close>, its four keys in the order of the source.\<close>

definition findings_by_severity :: "pyval list \<Rightarrow> exn + (string \<times> pyval list) list" where
  "findings_by_severity findings =
     (case severity_bucket ''CRITICAL'' findings of
        Inl e \<Rightarrow> Inl e
      | Inr critical \<Rightarrow>
     (case severity_bucket ''HIGH'' findings of
        Inl e \<Rightarrow> Inl e
      | Inr high \<Rightarrow>
     (case severity_bucket ''MEDIUM'' findings of
        Inl e \<Rightarrow> Inl e
      | Inr medium \<Rightarrow>
     (case severity_bucket ''LOW'' findings of
        Inl e \<Rightarrow> Inl e
      | Inr low \<Rightarrow>
          Inr [(''CRITICAL'', critical), (''HIGH'', high), (''MEDIUM'', medium),
               (''LOW'', low)]))))"

text \<open>
  Keys of the dictionary \<open>findings_by_type\<close>: a list or a dictionary is unhashable,
  and two keys are the same when they are equal, numbers by their value.
\<close>

fun hashable :: "pyval \<Rightarrow> bool" where
  "hashable (PList xs) = False"
| "hashable (PDict d) = False"
| "hashable _ = True"

definition key_eq :: "pyval \<Rightarrow> pyval \<Rightarrow> bool" where
  "key_eq a b =
     (case py_number a of
        Inr x \<Rightarrow> (case py_number b of Inr y \<Rightarrow> x = y | Inl e \<Rightarrow> False)
      | Inl e \<Rightarrow> (case py_number b of Inr y \<Rightarrow> False | Inl e' \<Rightarrow> a = b))"

text \<open>
  \<open>if resource_type not in findings_by_type: findings_by_type[resource_type] = []\<close>
  followed by \<open>findings_by_type[resource_type].append(finding)\<close>.
\<close>

fun add_to_group ::
  "(pyval \<times> pyval list) list \<Rightarrow> pyval \<Rightarrow> pyval \<Rightarrow> (pyval \<times> pyval list) list" where
  "add_to_group [] k f = [(k, [f])]"
| "add_to_group ((k', fs) # groups) k f =
     (if key_eq k' k then (k', fs @ [f]) # groups else (k', fs) # add_to_group groups k f)"

fun findings_by_type ::
  "pyval list \<Rightarrow> (pyval \<times> pyval list) list \<Rightarrow> exn + (pyval \<times> pyval list) list" where
  "findings_by_type [] groups = Inr groups"
| "findings_by_type (finding # rest) groups =
     (case py_get finding ''resourceType'' (PStr ''Unknown'') of
        Inl e \<Rightarrow> Inl e
      | Inr resource_type \<Rightarrow>
          if hashable resource_type
          then findings_by_type rest (add_to_group groups resource_type finding)
          else Inl TypeError)"

text \<open>\<open>_generate_detailed_findings\<close>: one entry per finding, numbered from 1.\<close>

fun detailed_finding :: "nat \<Rightarrow> pyval \<Rightarrow> exn + dict" where
  "detailed_finding i (PDict finding) =
     Inr [(''findingNumber'', PInt (int i)),
          (''title'', dict_get finding ''title'' (PStr ''Untitled Finding'')),
          (''severity'', dict_get finding ''severity'' (PStr ''UNKNOWN'')),
          (''resourceType'', dict_get finding ''resourceType'' (PStr ''Unknown'')),
          (''resourceId'', dict_get finding ''resourceId'' (PStr ''Unknown'')),
          (''description'', dict_get finding ''description'' (PStr ''No description provided'')),
          (''complianceFrameworks'', dict_get finding ''complianceFrameworks'' (PList [])),
          (''riskScore'', dict_get finding ''riskScore'' (PInt 0)),
          (''remediationSteps'', dict_get finding ''remediationSteps'' (PList [])),
          (''recommendations'', dict_get finding ''recommendations'' (PStr '''')),
          (''status'', dict_get finding ''status'' (PStr ''OPEN''))]"
| "detailed_finding i _ = Inl AttributeError"

fun generate_detailed_findings :: "nat \<Rightarrow> pyval list \<Rightarrow> exn + dict list" where
  "generate_detailed_findings i [] = Inr []"
| "generate_detailed_findings i (finding # rest) =
     (case detailed_finding i finding of
        Inl e \<Rightarrow> Inl e
      | Inr d \<Rightarrow>
          (case generate_detailed_findings (Suc i) rest of
             Inl e \<Rightarrow> Inl e
           | Inr ds \<Rightarrow> Inr (d # ds)))"

text \<open>
  \<open>round(x, 1)\<close> on a float: the nearest multiple of one tenth, an exact tie going to
  the even one.
\<close>

definition round_half_even :: "rat \<Rightarrow> int" where
  "round_half_even q =
     (let f = \<lfloor>q\<rfloor>; d = q - of_int f
      in if d < 1 / 2 then f else if 1 / 2 < d then f + 1 else if even f then f else f + 1)"

definition round1 :: "rat \<Rightarrow> rat" where
  "round1 x = of_int (round_half_even (x * 10)) / 10"

text \<open>
  The report content. The model keeps its data: the metadata, the counts of the two
  groupings (\<open>findingsSummary\<close>) and the detailed findings. The three text sections
  (executive summary, recommendations, appendices) are rendered from the same buckets
  and scores, raise nothing once the buckets are built, and reach neither the uploaded
  document nor the value \<open>generate_compliance_report\<close> returns; they are left out.
\<close>

record report_content =
  metadata :: dict
  by_severity :: "(string \<times> nat) list"
  by_resource_type :: "(pyval \<times> nat) list"
  detailed_findings :: "dict list"

text \<open>
  \<open>_create_report_content\<close>. The groupings come first and may raise; the identifier
  and the clock are read last, when the dictionary is built.
\<close>

definition create_report_content ::
  "string \<Rightarrow> pyval list \<Rightarrow> (string \<times> rat) list \<Rightarrow> rat \<Rightarrow> string list \<Rightarrow> int \<Rightarrow> world
     \<Rightarrow> (exn + report_content) \<times> world" where
  "create_report_content audit_run_id findings compliance_scores overall_score' frameworks
      resources_scanned w =
     (case findings_by_severity findings of
        Inl e \<Rightarrow> (Inl e, w)
      | Inr by_sev \<Rightarrow>
     (case findings_by_type findings [] of
        Inl e \<Rightarrow> (Inl e, w)
      | Inr by_type \<Rightarrow>
     (case generate_detailed_findings 1 findings of
        Inl e \<Rightarrow> (Inl e, w)
      | Inr detailed \<Rightarrow>
          (let (report_id, w1) = uuid4 w;
               (generated_at, w2) = utcnow w1
           in (Inr \<lparr>metadata =
                       [(''reportId'', PStr report_id),
                        (''auditRunId'', PStr audit_run_id),
                        (''generatedAt'', PStr generated_at),
                        (''frameworks'', PList (map PStr frameworks)),
                        (''resourcesScanned'', PInt resources_scanned),
                        (''totalFindings'', PInt (int (length findings))),
                        (''overallComplianceScore'', PFloat (round1 overall_score'))],
                    by_severity = map (\<lambda>(severity, findings_list). (severity, length findings_list)) by_sev,
                    by_resource_type =
                      map (\<lambda>(resource_type, findings_list). (resource_type, length findings_list)) by_type,
                    detailed_findings = detailed\<rparr>,
               w2)))))"

text \<open>\<open>_generate_pdf_report\<close>: the document is built from the metadata alone.\<close>

definition generate_pdf_report :: "report_content \<Rightarrow> world \<Rightarrow> dict \<times> world" where
  "generate_pdf_report content w =
     (let (generated_at, w1) = utcnow w
      in ([(''contentType'', PStr ''application/pdf''),
           (''metadata'', PDict (metadata content)),
           (''structure'',
              PDict [(''sections'',
                      PList [PStr ''Executive Summary'', PStr ''Compliance Scores'',
                             PStr ''Findings Summary'', PStr ''Detailed Findings'',
                             PStr ''Recommendations'', PStr ''Appendices''])]),
           (''pageCount'', PInt 15),
           (''generatedAt'', PStr generated_at)],
          w1))"

text \<open>
  \<open>_upload_to_s3\<close>: the body handed to the client is the document (the client gets
  its JSON text). Whatever the client raises is raised again as an \<open>Exception\<close> whose
  message starts with \<open>Failed to upload report to S3: \<close>.
\<close>

definition upload_to_s3 ::
  "(exn \<Rightarrow> string) \<Rightarrow> generator \<Rightarrow> dict \<Rightarrow> string \<Rightarrow> world \<Rightarrow> (exn + string) \<times> world" where
  "upload_to_s3 msg_of gen pdf_data report_key w =
     (let bucket_name =
            (case reports_bucket gen of
               None \<Rightarrow> ''secureauditai-reports-dev''
             | Some b \<Rightarrow> if b \<noteq> [] then b else ''secureauditai-reports-dev'');
          (generated_at, w1) = utcnow w
      in case put_object gen
                [(''Bucket'', PStr bucket_name),
                 (''Key'', PStr report_key),
                 (''Body'', PDict pdf_data),
                 (''ContentType'', PStr ''application/pdf''),
                 (''Metadata'',
                    PDict [(''report-type'', PStr ''compliance-audit''),
                           (''generated-at'', PStr generated_at)])] of
           Some e \<Rightarrow>
             (Inl (Exception (''Failed to upload report to S3: '' @ py_str_exn msg_of e)), w1)
         | None \<Rightarrow>
             (case generate_presigned_url gen ''get_object''
                     [(''Bucket'', PStr bucket_name), (''Key'', PStr report_key)]
                     (7 * 24 * 3600) of
                Inl e \<Rightarrow>
                  (Inl (Exception (''Failed to upload report to S3: '' @ py_str_exn msg_of e)), w1)
              | Inr presigned_url \<Rightarrow> (Inr presigned_url, w1)))"

text \<open>The body of the \<open>try\<close> block of \<open>generate_compliance_report\<close>.\<close>

definition report_try_block ::
  "(exn \<Rightarrow> string) \<Rightarrow> generator \<Rightarrow> string \<Rightarrow> pyval list \<Rightarrow> (string \<times> rat) list \<Rightarrow> rat
     \<Rightarrow> string list \<Rightarrow> int \<Rightarrow> world \<Rightarrow> (exn + dict) \<times> world" where
  "report_try_block msg_of gen audit_run_id findings compliance_scores overall_score' frameworks
      resources_scanned w =
     (case create_report_content audit_run_id findings compliance_scores overall_score'
             frameworks resources_scanned w of
        (Inl e, w1) \<Rightarrow> (Inl e, w1)
      | (Inr report_content, w1) \<Rightarrow>
          (let (pdf_buffer, w2) = generate_pdf_report report_content w1;
               (stamp, w3) = utcnow w2;
               report_key = ''reports/'' @ audit_run_id @ ''/compliance-report-'' @ stamp @ ''.pdf''
           in case upload_to_s3 msg_of gen pdf_buffer report_key w3 of
                (Inl e, w4) \<Rightarrow> (Inl e, w4)
              | (Inr s3_url, w4) \<Rightarrow>
                  (let (report_id, w5) = uuid4 w4;
                       (generated_at, w6) = utcnow w5
                   in (Inr [(''reportId'', PStr report_id),
                            (''auditRunId'', PStr audit_run_id),
                            (''generatedAt'', PStr generated_at),
                            (''s3Location'', PStr s3_url),
                            (''s3Key'', PStr report_key),
                            (''findingsCount'', PInt (int (length findings))),
                            (''overallScore'', PFloat overall_score'),
                            (''frameworks'', PList (map PStr frameworks)),
                            (''status'', PStr ''COMPLETED'')],
                       w6))))"

text \<open>
  \<open>ComplianceReportGenerator.generate_compliance_report\<close>: the \<open>try\<close> block, and
  the handler \<open>except Exception as e\<close> that turns every exception into a dictionary.
\<close>

definition generate_compliance_report ::
  "(exn \<Rightarrow> string) \<Rightarrow> generator \<Rightarrow> string \<Rightarrow> pyval list \<Rightarrow> (string \<times> rat) list \<Rightarrow> rat
     \<Rightarrow> string list \<Rightarrow> int \<Rightarrow> world \<Rightarrow> dict \<times> world" where
  "generate_compliance_report msg_of gen audit_run_id findings compliance_scores overall_score'
      frameworks resources_scanned w =
     (case report_try_block msg_of gen audit_run_id findings compliance_scores overall_score'
             frameworks resources_scanned w of
        (Inr report, w1) \<Rightarrow> (report, w1)
      | (Inl e, w1) \<Rightarrow>
          (let (report_id, w2) = uuid4 w1;
               (generated_at, w3) = utcnow w2
           in ([(''reportId'', PStr report_id),
                (''auditRunId'', PStr audit_run_id),
                (''generatedAt'', PStr generated_at),
                (''status'', PStr ''ERROR''),
                (''error'', PStr (py_str_exn msg_of e))],
               w3)))"

section \<open>Notions the properties are stated with\<close>

text \<open>The bucket of scenario A.\<close>

definition scenario_a_bucket :: dict where
  "scenario_a_bucket =
     [(''type'', PStr ''S3_BUCKET''), (''id'', PStr ''b1''),
      (''config'', PDict [(''publicAccess'', PBool True), (''encryption'', PBool False)])]"

text \<open>The findings of a run, or the exception it raised; the clock left over is dropped.\<close>

definition findings_of :: "exn + (dict list \<times> clock) \<Rightarrow> exn + dict list" where
  "findings_of res = (case res of Inl e \<Rightarrow> Inl e | Inr (fs, c) \<Rightarrow> Inr fs)"

text \<open>A finding without its \<open>createdAt\<close> entry.\<close>

definition without_createdAt :: "dict \<Rightarrow> dict" where
  "without_createdAt f = filter (\<lambda>kv. fst kv \<noteq> ''createdAt'') f"

definition modulo_createdAt :: "exn + (dict list \<times> clock) \<Rightarrow> exn + dict list" where
  "modulo_createdAt res =
     (case res of Inl e \<Rightarrow> Inl e | Inr (fs, c) \<Rightarrow> Inr (map without_createdAt fs))"

text \<open>The fields of a finding that two runs are compared on, read with \<open>f.get(k)\<close>.\<close>

definition compared_fields :: "string list" where
  "compared_fields =
     [''title'', ''description'', ''severity'', ''riskScore'', ''resourceType'', ''resourceId'',
      ''complianceFrameworks'', ''remediationSteps'', ''requirement'']"

definition fields_of :: "exn + (dict list \<times> clock) \<Rightarrow> exn + pyval list list" where
  "fields_of res =
     (case res of Inl e \<Rightarrow> Inl e
      | Inr (fs, c) \<Rightarrow> Inr (map (\<lambda>f. map (dict_get_none f) compared_fields) fs))"

text \<open>
  The encryption finding of the S3 rules, recognised by its title, severity and risk
  score.
\<close>

definition is_encryption_finding :: "string \<Rightarrow> dict \<Rightarrow> bool" where
  "is_encryption_finding framework f =
     (dict_get_none f ''title'' = PStr (''S3 Bucket Encryption ('' @ framework @ '')'')
      \<and> dict_get_none f ''severity'' = PStr ''MEDIUM''
      \<and> dict_get_none f ''riskScore'' = PInt 60)"

definition encryption_finding_produced :: "string \<Rightarrow> exn + (dict list \<times> clock) \<Rightarrow> bool" where
  "encryption_finding_produced framework res =
     (case res of Inl e \<Rightarrow> False
      | Inr (fs, c) \<Rightarrow> list_ex (is_encryption_finding framework) fs)"

text \<open>
  The condition of the rule table, \<open>config.encryption == false\<close>, read on the
  resource: \<open>config\<close> is a dictionary that binds \<open>encryption\<close> to a value equal to
  \<open>False\<close> (in Python \<open>0\<close> and \<open>0.0\<close> are equal to \<open>False\<close> too). A missing
  key has no value to compare.
\<close>

definition config_encryption_is_false :: "dict \<Rightarrow> bool" where
  "config_encryption_is_false resource =
     (case dict_get resource ''config'' (PDict []) of
        PDict config \<Rightarrow>
          (case map_of config ''encryption'' of
             None \<Rightarrow> False
           | Some v \<Rightarrow> v = PBool False \<or> v = PInt 0 \<or> v = PFloat 0)
      | _ \<Rightarrow> False)"

text \<open>The condition the code tests: \<open>not config.get('encryption', False)\<close>.\<close>

definition config_encryption_falsy :: "dict \<Rightarrow> bool" where
  "config_encryption_falsy config = (\<not> truthy (dict_get config ''encryption'' (PBool False)))"

definition bucket_without_encryption_key :: dict where
  "bucket_without_encryption_key =
     [(''type'', PStr ''S3_BUCKET''), (''id'', PStr ''b2''),
      (''config'', PDict [(''publicAccess'', PBool False)])]"

definition resource_without_type :: dict where
  "resource_without_type = [(''id'', PStr ''x1''), (''config'', PNone)]"

text \<open>
  What the specification asks the parsing step to validate: a candidate is invalid when
  its riskScore is a number outside [0, 100] or its severity is a token outside the four
  severities.
\<close>

definition severity_tokens :: "string list" where
  "severity_tokens = [''LOW'', ''MEDIUM'', ''HIGH'', ''CRITICAL'']"

definition risk_out_of_range :: "dict \<Rightarrow> bool" where
  "risk_out_of_range d =
     (case map_of d ''riskScore'' of
        Some (PInt i) \<Rightarrow> i < 0 \<or> 100 < i
      | Some (PFloat x) \<Rightarrow> x < 0 \<or> 100 < x
      | _ \<Rightarrow> False)"

definition unknown_severity :: "dict \<Rightarrow> bool" where
  "unknown_severity d =
     (case map_of d ''severity'' of
        Some (PStr s) \<Rightarrow> \<not> List.member severity_tokens s
      | _ \<Rightarrow> False)"

definition candidate_invalid :: "dict \<Rightarrow> bool" where
  "candidate_invalid d = (risk_out_of_range d \<or> unknown_severity d)"

definition bad_candidate :: dict where
  "bad_candidate =
     [(''title'', PStr ''Open bucket''), (''severity'', PStr ''SEVERE''), (''riskScore'', PInt 150)]"

definition good_candidate :: dict where
  "good_candidate =
     [(''title'', PStr ''Unencrypted volume''), (''severity'', PStr ''HIGH''), (''riskScore'', PInt 70)]"

definition bare_candidate :: dict where
  "bare_candidate = [(''title'', PStr ''Untagged instance'')]"

text \<open>
  The riskScore of a finding as the scoring step reads it, when it is a number, and the
  arithmetic mean of the riskScores of a sequence of findings.
\<close>

definition risk_value :: "dict \<Rightarrow> rat" where
  "risk_value finding =
     (case py_number (dict_get finding ''riskScore'' (PInt 50)) of Inl e \<Rightarrow> 0 | Inr x \<Rightarrow> x)"

definition risk_is_number :: "dict \<Rightarrow> bool" where
  "risk_is_number finding =
     (case py_number (dict_get finding ''riskScore'' (PInt 50)) of Inl e \<Rightarrow> False | Inr x \<Rightarrow> True)"

definition mean_risk :: "dict list \<Rightarrow> rat" where
  "mean_risk findings = sum_list (map risk_value findings) / of_nat (length findings)"

text \<open>The score the specification gives a framework with these findings.\<close>

definition expected_score :: "dict list \<Rightarrow> rat" where
  "expected_score findings = (if findings = [] then 100 else max 0 (100 - mean_risk findings))"

text \<open>A riskScore that is an integer in [0, 100].\<close>

definition risk_in_range :: "dict \<Rightarrow> bool" where
  "risk_in_range finding =
     (case dict_get finding ''riskScore'' (PInt 50) of
        PInt i \<Rightarrow> 0 \<le> i \<and> i \<le> 100
      | _ \<Rightarrow> False)"

definition critical_90 :: dict where
  "critical_90 = [(''title'', PStr ''Wildcard role''), (''severity'', PStr ''CRITICAL''),
                  (''riskScore'', PInt 90)]"

definition high_70 :: dict where
  "high_70 = [(''title'', PStr ''Secret in environment''), (''severity'', PStr ''HIGH''),
              (''riskScore'', PInt 70)]"

text \<open>
  The dictionary of scores the loop builds when every score is the expected one; it is
  what the properties of the loop are proved against.
\<close>

definition scored ::
  "(string \<times> dict list) list \<Rightarrow> (string \<times> rat) list \<Rightarrow> (string \<times> rat) list" where
  "scored runs sc = fold (\<lambda>run sc. dict_set sc (fst run) (expected_score (snd run))) runs sc"

text \<open>
  A finding whose severity is one of the four tokens of the report, and the findings of
  a sequence with a given severity.
\<close>

definition has_listed_severity :: "dict \<Rightarrow> bool" where
  "has_listed_severity f =
     (dict_get_none f ''severity'' = PStr ''CRITICAL'' \<or> dict_get_none f ''severity'' = PStr ''HIGH''
      \<or> dict_get_none f ''severity'' = PStr ''MEDIUM'' \<or> dict_get_none f ''severity'' = PStr ''LOW'')"

definition with_severity :: "string \<Rightarrow> dict list \<Rightarrow> dict list" where
  "with_severity severity fs = filter (\<lambda>f. dict_get_none f ''severity'' = PStr severity) fs"

text \<open>
  The sum of the sizes of the buckets, which the executive summary prints as the total
  of issues (\<open>sum(len(findings) for findings in findings_by_severity.values())\<close>),
  and the number of buckets a finding stands in.
\<close>

definition bucket_sizes :: "(string \<times> pyval list) list \<Rightarrow> nat" where
  "bucket_sizes buckets = sum_list (map (\<lambda>b. length (snd b)) buckets)"

definition buckets_holding :: "dict \<Rightarrow> (string \<times> pyval list) list \<Rightarrow> nat" where
  "buckets_holding f buckets = length (filter (\<lambda>b. List.member (snd b) (PDict f)) buckets)"

text \<open>The finding the normalizer makes of the candidate with severity \<open>SEVERE\<close>.\<close>

definition severe_finding :: dict where
  "severe_finding = candidate_finding ''GDPR'' scenario_a_bucket bad_candidate ''2024-01-01T00:00:00''"

text \<open>
  A client whose upload is refused and a client that accepts everything, a world, and the
  texts of the interpreter's exceptions, for the examples.
\<close>

definition refusing_client :: generator where
  "refusing_client =
     \<lparr>put_object = (\<lambda>kwargs. Some (ClientError ''AccessDenied'')),
      generate_presigned_url = (\<lambda>operation params expires. Inr ''https://s3.example/report''),
      reports_bucket = None\<rparr>"

definition accepting_client :: generator where
  "accepting_client =
     \<lparr>put_object = (\<lambda>kwargs. None),
      generate_presigned_url = (\<lambda>operation params expires. Inr ''https://s3.example/report''),
      reports_bucket = None\<rparr>"

definition example_world :: world where
  "example_world = \<lparr>uuid4s = (\<lambda>n. ''0f8fad5b''), utcnows = (\<lambda>n. ''2024-01-01T00:00:00'')\<rparr>"

definition example_msg_of :: "exn \<Rightarrow> string" where
  "example_msg_of e = (case e of AttributeError \<Rightarrow> ''no attribute get'' | _ \<Rightarrow> ''type error'')"

section \<open>Properties of the rule-based analysis\<close>

text \<open>
  C1. For every framework string, the rule-based analyzer on the bucket
  \<open>{type: S3_BUCKET, id: "b1", config: {publicAccess: true, encryption: false}}\<close>
  returns exactly two findings: the public-access finding with severity HIGH and
  riskScore 75, then the encryption finding with severity MEDIUM and riskScore 60.
  Both conditions are evaluated, and both fire.
\<close>

theorem scenario_a_two_findings:
  "rule_based_analysis fmt framework scenario_a_bucket c =
     Inr ([s3_public_access_finding fmt framework scenario_a_bucket (PStr ''S3_BUCKET'') (c 0),
           s3_encryption_finding fmt framework scenario_a_bucket (PStr ''S3_BUCKET'') (c 1)],
          \<lambda>n. c (Suc (Suc n)))
   \<and> dict_get_none (s3_public_access_finding fmt framework scenario_a_bucket (PStr ''S3_BUCKET'') t)
         ''severity'' = PStr ''HIGH''
   \<and> dict_get_none (s3_public_access_finding fmt framework scenario_a_bucket (PStr ''S3_BUCKET'') t)
         ''riskScore'' = PInt 75
   \<and> dict_get_none (s3_encryption_finding fmt framework scenario_a_bucket (PStr ''S3_BUCKET'') t)
         ''severity'' = PStr ''MEDIUM''
   \<and> dict_get_none (s3_encryption_finding fmt framework scenario_a_bucket (PStr ''S3_BUCKET'') t)
         ''riskScore'' = PInt 60"
  by (simp add: rule_based_analysis_def scenario_a_bucket_def dict_get_def dict_get_none_def
      append_if_def utcnow_isoformat_def s3_public_access_finding_def s3_encryption_finding_def
      finding_dict_def Let_def)

lemma without_createdAt_finding_dict:
  "without_createdAt (finding_dict a b c d e f g h i t) =
     [(''title'', PStr a), (''description'', PStr b), (''severity'', c), (''resourceType'', d),
      (''resourceId'', e), (''complianceFrameworks'', PList [PStr f]), (''riskScore'', g),
      (''remediationSteps'', h), (''requirement'', PStr i)]"
  by (simp add: without_createdAt_def finding_dict_def)

lemma dict_get_none_without:
  "k \<noteq> ''createdAt'' \<Longrightarrow> dict_get_none (without_createdAt f) k = dict_get_none f k"
  by (induction f) (auto simp: without_createdAt_def dict_get_none_def dict_get_def)

lemma compared_fields_without:
  "map (dict_get_none f) compared_fields
     = map (dict_get_none (without_createdAt f)) compared_fields"
  by (simp add: compared_fields_def dict_get_none_without)

lemma modulo_createdAt_simps:
  "modulo_createdAt (Inl e) = Inl e"
  "modulo_createdAt (Inr st) = Inr (map without_createdAt (fst st))"
  by (simp_all add: modulo_createdAt_def split_def)

lemma fields_of_modulo:
  "fields_of res =
     (case modulo_createdAt res of Inl e \<Rightarrow> Inl e
      | Inr gs \<Rightarrow> Inr (map (\<lambda>g. map (dict_get_none g) compared_fields) gs))"
  by (cases res)
     (auto simp: fields_of_def modulo_createdAt_def compared_fields_without[symmetric] split_def)

lemma strip_append_if:
  "map without_createdAt (fst (append_if cond mk st)) =
     map without_createdAt (fst st) @ (if cond then [without_createdAt (mk (snd st 0))] else [])"
  by (simp add: append_if_def utcnow_isoformat_def split_def Let_def)

lemmas finding_defs =
  s3_public_access_finding_def s3_encryption_finding_def ec2_public_ip_finding_def
  iam_wildcard_finding_def lambda_sensitive_finding_def

lemma rule_based_modulo_createdAt:
  "modulo_createdAt (rule_based_analysis fmt framework resource c1)
     = modulo_createdAt (rule_based_analysis fmt framework resource c2)"
  unfolding rule_based_analysis_def Let_def
  by (simp add: modulo_createdAt_simps strip_append_if finding_defs without_createdAt_finding_dict
      split: sum.splits)

lemma is_encryption_finding_simps:
  "is_encryption_finding framework (s3_encryption_finding fmt framework resource rt t)"
  "\<not> is_encryption_finding framework (s3_public_access_finding fmt framework resource rt t)"
  by (simp_all add: is_encryption_finding_def s3_encryption_finding_def
      s3_public_access_finding_def finding_dict_def dict_get_none_def dict_get_def)

lemma list_ex_append_if:
  "list_ex P (fst (append_if cond mk st)) = (list_ex P (fst st) \<or> (cond \<and> P (mk (snd st 0))))"
  by (auto simp: append_if_def utcnow_isoformat_def split_def Let_def)

lemma encryption_finding_produced_Inr:
  "encryption_finding_produced framework (Inr st)
     = list_ex (is_encryption_finding framework) (fst st)"
  by (simp add: encryption_finding_produced_def split_def)

text \<open>
  C5, as the code has it. The claim reads the rule's condition as
  \<open>config.encryption == false\<close>; the code tests \<open>not config.get('encryption', False)\<close>.
  For every S3_BUCKET resource whose \<open>config\<close> is a dictionary (an absent \<open>config\<close>
  counts as the empty one) the analysis raises nothing, and the encryption finding is
  produced exactly when \<open>config.get('encryption', False)\<close> is falsy: the key is absent,
  or its value is \<open>False\<close>, \<open>None\<close>, zero or empty.
\<close>

theorem encryption_finding_iff_falsy:
  assumes "dict_get resource ''type'' (PStr '''') = PStr ''S3_BUCKET''"
      and "dict_get resource ''config'' (PDict []) = PDict config"
  shows "findings_of (rule_based_analysis fmt framework resource c) \<noteq> Inl e
     \<and> encryption_finding_produced framework (rule_based_analysis fmt framework resource c)
         = config_encryption_falsy config
     \<and> config_encryption_falsy config
         = (case map_of config ''encryption'' of None \<Rightarrow> True | Some v \<Rightarrow> \<not> truthy v)"
  using assms
  by (simp add: rule_based_analysis_def Let_def findings_of_def split_def
      encryption_finding_produced_Inr list_ex_append_if is_encryption_finding_simps
      config_encryption_falsy_def dict_get_def split: option.splits)

theorem encryption_finding_iff_falsy_witness:
  "dict_get scenario_a_bucket ''type'' (PStr '''') = PStr ''S3_BUCKET''
   \<and> dict_get scenario_a_bucket ''config'' (PDict [])
       = PDict [(''publicAccess'', PBool True), (''encryption'', PBool False)]
   \<and> encryption_finding_produced ''GDPR''
        (rule_based_analysis (\<lambda>v. '''') ''GDPR'' scenario_a_bucket (\<lambda>n. ''2024-01-01T00:00:00''))
   \<and> config_encryption_falsy [(''publicAccess'', PBool True), (''encryption'', PBool False)]"
proof -
  have t: "dict_get scenario_a_bucket ''type'' (PStr '''') = PStr ''S3_BUCKET''"
    by (simp add: scenario_a_bucket_def dict_get_def)
  have g: "dict_get scenario_a_bucket ''config'' (PDict [])
       = PDict [(''publicAccess'', PBool True), (''encryption'', PBool False)]"
    by (simp add: scenario_a_bucket_def dict_get_def)
  have f: "config_encryption_falsy [(''publicAccess'', PBool True), (''encryption'', PBool False)]"
    by (simp add: config_encryption_falsy_def dict_get_def)
  show ?thesis
    using encryption_finding_iff_falsy [OF t g, of "\<lambda>v. ''''" "''GDPR''"
        "\<lambda>n. ''2024-01-01T00:00:00''"] t g f
    by simp
qed

text \<open>
  C5, as the claim states it, fails on a bucket whose \<open>config\<close> has no
  \<open>encryption\<close> key: the analysis produces the encryption finding, although
  \<open>config.encryption == false\<close> does not hold there.
\<close>

theorem encryption_claim_counterexample:
  "dict_get bucket_without_encryption_key ''type'' (PStr '''') = PStr ''S3_BUCKET''
   \<and> findings_of (rule_based_analysis (\<lambda>v. '''') ''GDPR'' bucket_without_encryption_key
         (\<lambda>n. ''2024-01-01T00:00:00''))
       = Inr [s3_encryption_finding (\<lambda>v. '''') ''GDPR'' bucket_without_encryption_key
                (PStr ''S3_BUCKET'') ''2024-01-01T00:00:00'']
   \<and> encryption_finding_produced ''GDPR''
        (rule_based_analysis (\<lambda>v. '''') ''GDPR'' bucket_without_encryption_key
           (\<lambda>n. ''2024-01-01T00:00:00''))
   \<and> \<not> config_encryption_is_false bucket_without_encryption_key"
  by (simp add: rule_based_analysis_def Let_def findings_of_def
      encryption_finding_produced_def bucket_without_encryption_key_def dict_get_def
      append_if_def utcnow_isoformat_def is_encryption_finding_def s3_encryption_finding_def
      finding_dict_def dict_get_none_def config_encryption_is_false_def)

text \<open>
  C7. A resource dictionary without a \<open>type\<close> key, analysed for any framework:
  the rule-based analyzer raises nothing, returns no finding and reads no clock,
  whatever the rest of the resource holds.
\<close>

theorem missing_type_no_findings:
  "map_of resource ''type'' = None \<Longrightarrow>
     rule_based_analysis fmt framework resource c = Inr ([], c)"
  by (simp add: rule_based_analysis_def dict_get_def Let_def)

theorem missing_type_no_findings_witness:
  "map_of resource_without_type ''type'' = None
   \<and> rule_based_analysis (\<lambda>v. '''') ''SOC2'' resource_without_type (\<lambda>n. ''2024-01-01T00:00:00'')
       = Inr ([], \<lambda>n. ''2024-01-01T00:00:00'')"
proof -
  have h: "map_of resource_without_type ''type'' = None"
    by (simp add: resource_without_type_def)
  show ?thesis
    using missing_type_no_findings [OF h, of "\<lambda>v. ''''" "''SOC2''" "\<lambda>n. ''2024-01-01T00:00:00''"] h
    by simp
qed

text \<open>
  C9. Two runs of the rule-based analyzer on the same resource and framework differ in
  the clock only. Both raise the same exception, or both return findings that are equal
  once \<open>createdAt\<close> is removed; in particular the two sequences agree on title,
  description, severity, riskScore, resourceType, resourceId, complianceFrameworks,
  remediationSteps and requirement.
\<close>

theorem rule_based_two_run_determinism:
  "modulo_createdAt (rule_based_analysis fmt framework resource c1)
     = modulo_createdAt (rule_based_analysis fmt framework resource c2)
   \<and> fields_of (rule_based_analysis fmt framework resource c1)
     = fields_of (rule_based_analysis fmt framework resource c2)"
  using rule_based_modulo_createdAt [of fmt framework resource c1 c2]
  by (simp add: fields_of_modulo)

lemma parse_candidates_dicts:
  "parse_candidates framework resource (map PDict ds) st =
     Inr (fst st @ map2 (candidate_finding framework resource) ds (map (snd st) [0..<length ds]),
          \<lambda>n. snd st (n + length ds))"
proof (induction ds arbitrary: st)
  case Nil
  then show ?case by simp
next
  case (Cons d ds)
  show ?case
    by (simp add: utcnow_isoformat_def Cons.IH map_upt_Suc del: upt_Suc)
qed

lemma parse_analysis_result_dicts:
  "parse_analysis_result framework resource (PList (map PDict ds)) c =
     Inr (map2 (candidate_finding framework resource) ds (map c [0..<length ds]),
          \<lambda>n. c (n + length ds))"
  by (simp add: parse_analysis_result_def parse_candidates_dicts)

lemma candidate_finding_fields:
  "dict_get_none (candidate_finding framework resource d t) ''severity''
     = dict_get d ''severity'' (PStr ''MEDIUM'')"
  "dict_get_none (candidate_finding framework resource d t) ''riskScore''
     = dict_get d ''riskScore'' (PInt 50)"
  "dict_get_none (candidate_finding framework resource d t) ''remediationSteps''
     = dict_get d ''remediationSteps'' (PList [])"
  "dict_get_none (candidate_finding framework resource d t) ''requirement''
     = dict_get d ''requirement'' (PStr (framework @ '' requirement''))"
  by (simp_all add: candidate_finding_def dict_get_none_def dict_get_def)

text \<open>
  C8. For every list of candidate records (dictionaries) the normalizer raises nothing
  and returns exactly one finding per candidate, in the order of the candidates, the
  \<open>i\<close>-th stamped with the \<open>i\<close>-th reading of the clock. The finding of a
  candidate has the ten keys of the schema. A field the candidate has is copied
  unchanged. A candidate without a \<open>severity\<close> gets \<open>MEDIUM\<close>, without a
  \<open>riskScore\<close> 50, without \<open>remediationSteps\<close> the empty list, without a
  \<open>requirement\<close> the text \<open><framework> requirement\<close>, without a \<open>title\<close>
  \<open><framework> Compliance Issue\<close>, without a \<open>description\<close>
  \<open>Compliance violation detected\<close>. The type and the id are the resource's (or
  \<open>Unknown\<close>), and the only framework listed is the requesting one.
\<close>

theorem normalizer_one_finding_per_candidate:
  "parse_analysis_result framework resource (PList (map PDict candidates)) c =
     Inr (map2 (candidate_finding framework resource) candidates (map c [0..<length candidates]),
          \<lambda>n. c (n + length candidates))
   \<and> length (map2 (candidate_finding framework resource) candidates
               (map c [0..<length candidates])) = length candidates
   \<and> (map_of d ''severity'' = None \<longrightarrow>
        dict_get_none (candidate_finding framework resource d t) ''severity'' = PStr ''MEDIUM'')
   \<and> (map_of d ''riskScore'' = None \<longrightarrow>
        dict_get_none (candidate_finding framework resource d t) ''riskScore'' = PInt 50)
   \<and> (map_of d ''remediationSteps'' = None \<longrightarrow>
        dict_get_none (candidate_finding framework resource d t) ''remediationSteps'' = PList [])
   \<and> (map_of d ''requirement'' = None \<longrightarrow>
        dict_get_none (candidate_finding framework resource d t) ''requirement''
          = PStr (framework @ '' requirement''))
   \<and> map fst (candidate_finding framework resource d t)
        = [''title'', ''description'', ''severity'', ''resourceType'', ''resourceId'',
           ''complianceFrameworks'', ''riskScore'', ''remediationSteps'', ''requirement'',
           ''createdAt'']
   \<and> (\<forall>v. map_of d ''title'' = Some v \<longrightarrow>
        dict_get_none (candidate_finding framework resource d t) ''title'' = v)
   \<and> (\<forall>v. map_of d ''description'' = Some v \<longrightarrow>
        dict_get_none (candidate_finding framework resource d t) ''description'' = v)
   \<and> (\<forall>v. map_of d ''severity'' = Some v \<longrightarrow>
        dict_get_none (candidate_finding framework resource d t) ''severity'' = v)
   \<and> (\<forall>v. map_of d ''riskScore'' = Some v \<longrightarrow>
        dict_get_none (candidate_finding framework resource d t) ''riskScore'' = v)
   \<and> (\<forall>v. map_of d ''remediationSteps'' = Some v \<longrightarrow>
        dict_get_none (candidate_finding framework resource d t) ''remediationSteps'' = v)
   \<and> (\<forall>v. map_of d ''requirement'' = Some v \<longrightarrow>
        dict_get_none (candidate_finding framework resource d t) ''requirement'' = v)
   \<and> (map_of d ''title'' = None \<longrightarrow>
        dict_get_none (candidate_finding framework resource d t) ''title''
          = PStr (framework @ '' Compliance Issue''))
   \<and> (map_of d ''description'' = None \<longrightarrow>
        dict_get_none (candidate_finding framework resource d t) ''description''
          = PStr ''Compliance violation detected'')
   \<and> dict_get_none (candidate_finding framework resource d t) ''resourceType''
        = dict_get resource ''type'' (PStr ''Unknown'')
   \<and> dict_get_none (candidate_finding framework resource d t) ''resourceId''
        = dict_get resource ''id'' (PStr ''Unknown'')
   \<and> dict_get_none (candidate_finding framework resource d t) ''complianceFrameworks''
        = PList [PStr framework]
   \<and> dict_get_none (candidate_finding framework resource d t) ''createdAt'' = PStr t"
  by (simp add: parse_analysis_result_dicts candidate_finding_def dict_get_none_def dict_get_def)

theorem normalizer_one_finding_per_candidate_witness:
  "findings_of (parse_analysis_result ''SOC2'' scenario_a_bucket
       (PList (map PDict [bare_candidate, good_candidate])) (\<lambda>n. ''2024-01-01T00:00:00''))
     = Inr [candidate_finding ''SOC2'' scenario_a_bucket bare_candidate ''2024-01-01T00:00:00'',
            candidate_finding ''SOC2'' scenario_a_bucket good_candidate ''2024-01-01T00:00:00'']
   \<and> map_of bare_candidate ''severity'' = None
   \<and> map_of bare_candidate ''riskScore'' = None
   \<and> map_of bare_candidate ''remediationSteps'' = None
   \<and> map_of bare_candidate ''requirement'' = None
   \<and> map_of bare_candidate ''description'' = None
   \<and> map_of bare_candidate ''title'' = Some (PStr ''Untagged instance'')
   \<and> candidate_finding ''SOC2'' scenario_a_bucket bare_candidate ''2024-01-01T00:00:00''
       = [(''title'', PStr ''Untagged instance''),
          (''description'', PStr ''Compliance violation detected''),
          (''severity'', PStr ''MEDIUM''),
          (''resourceType'', PStr ''S3_BUCKET''),
          (''resourceId'', PStr ''b1''),
          (''complianceFrameworks'', PList [PStr ''SOC2'']),
          (''riskScore'', PInt 50),
          (''remediationSteps'', PList []),
          (''requirement'', PStr ''SOC2 requirement''),
          (''createdAt'', PStr ''2024-01-01T00:00:00'')]
   \<and> map_of good_candidate ''title'' = Some (PStr ''Unencrypted volume'')
   \<and> map_of good_candidate ''severity'' = Some (PStr ''HIGH'')
   \<and> map_of good_candidate ''riskScore'' = Some (PInt 70)
   \<and> dict_get_none (candidate_finding ''SOC2'' scenario_a_bucket good_candidate
         ''2024-01-01T00:00:00'') ''title'' = PStr ''Unencrypted volume''
   \<and> dict_get_none (candidate_finding ''SOC2'' scenario_a_bucket good_candidate
         ''2024-01-01T00:00:00'') ''severity'' = PStr ''HIGH''
   \<and> dict_get_none (candidate_finding ''SOC2'' scenario_a_bucket good_candidate
         ''2024-01-01T00:00:00'') ''riskScore'' = PInt 70"
proof -
  have b: "map_of bare_candidate ''severity'' = None" "map_of bare_candidate ''riskScore'' = None"
    "map_of bare_candidate ''remediationSteps'' = None" "map_of bare_candidate ''requirement'' = None"
    "map_of bare_candidate ''description'' = None"
    "map_of bare_candidate ''title'' = Some (PStr ''Untagged instance'')"
    by (simp_all add: bare_candidate_def)
  have g: "map_of good_candidate ''title'' = Some (PStr ''Unencrypted volume'')"
    "map_of good_candidate ''severity'' = Some (PStr ''HIGH'')"
    "map_of good_candidate ''riskScore'' = Some (PInt 70)"
    by (simp_all add: good_candidate_def)
  have r: "dict_get scenario_a_bucket ''type'' (PStr ''Unknown'') = PStr ''S3_BUCKET''"
    "dict_get scenario_a_bucket ''id'' (PStr ''Unknown'') = PStr ''b1''"
    by (simp_all add: scenario_a_bucket_def dict_get_def)
  have u: "[0..<2] = [0, Suc 0]"
    by (simp add: upt_rec)
  note tb = normalizer_one_finding_per_candidate [of "''SOC2''" scenario_a_bucket
        "[bare_candidate, good_candidate]" "\<lambda>n. ''2024-01-01T00:00:00''" bare_candidate
        "''2024-01-01T00:00:00''"]
  note tg = normalizer_one_finding_per_candidate [of "''SOC2''" scenario_a_bucket
        "[bare_candidate, good_candidate]" "\<lambda>n. ''2024-01-01T00:00:00''" good_candidate
        "''2024-01-01T00:00:00''"]
  have l: "findings_of (parse_analysis_result ''SOC2'' scenario_a_bucket
       (PList (map PDict [bare_candidate, good_candidate])) (\<lambda>n. ''2024-01-01T00:00:00''))
     = Inr [candidate_finding ''SOC2'' scenario_a_bucket bare_candidate ''2024-01-01T00:00:00'',
            candidate_finding ''SOC2'' scenario_a_bucket good_candidate ''2024-01-01T00:00:00'']"
    using tb by (simp add: findings_of_def u)
  have f: "dict_get_none (candidate_finding ''SOC2'' scenario_a_bucket good_candidate
         ''2024-01-01T00:00:00'') ''title'' = PStr ''Unencrypted volume''"
    "dict_get_none (candidate_finding ''SOC2'' scenario_a_bucket good_candidate
         ''2024-01-01T00:00:00'') ''severity'' = PStr ''HIGH''"
    "dict_get_none (candidate_finding ''SOC2'' scenario_a_bucket good_candidate
         ''2024-01-01T00:00:00'') ''riskScore'' = PInt 70"
    using tg g by simp_all
  have e: "candidate_finding ''SOC2'' scenario_a_bucket bare_candidate ''2024-01-01T00:00:00''
       = [(''title'', PStr ''Untagged instance''),
          (''description'', PStr ''Compliance violation detected''),
          (''severity'', PStr ''MEDIUM''),
          (''resourceType'', PStr ''S3_BUCKET''),
          (''resourceId'', PStr ''b1''),
          (''complianceFrameworks'', PList [PStr ''SOC2'']),
          (''riskScore'', PInt 50),
          (''remediationSteps'', PList []),
          (''requirement'', PStr ''SOC2 requirement''),
          (''createdAt'', PStr ''2024-01-01T00:00:00'')]"
    by (simp add: candidate_finding_def bare_candidate_def scenario_a_bucket_def dict_get_def)
  from l b e g f show ?thesis
    by simp
qed

text \<open>
  C3, as the code has it. The parsing step validates nothing. For every list of
  candidate records (dictionaries), a candidate with an out-of-range riskScore or an
  unknown severity token is kept: the output has one finding per candidate, the invalid
  candidate's finding stands at the candidate's position and carries its riskScore and
  severity unchanged, and every other candidate has its finding too.
\<close>

theorem invalid_candidate_is_kept:
  assumes "i < length candidates" and "candidate_invalid (candidates ! i)"
  shows "\<exists>fs c'. parse_analysis_result framework resource (PList (map PDict candidates)) c
                   = Inr (fs, c')
     \<and> length fs = length candidates
     \<and> fs ! i = candidate_finding framework resource (candidates ! i) (c i)
     \<and> dict_get_none (fs ! i) ''riskScore'' = dict_get (candidates ! i) ''riskScore'' (PInt 50)
     \<and> dict_get_none (fs ! i) ''severity'' = dict_get (candidates ! i) ''severity'' (PStr ''MEDIUM'')
     \<and> (\<forall>j < length candidates.
            fs ! j = candidate_finding framework resource (candidates ! j) (c j))"
  using assms
  by (simp add: parse_analysis_result_dicts candidate_finding_fields)

theorem invalid_candidate_is_kept_witness:
  "(0::nat) < length [bad_candidate, good_candidate]
   \<and> candidate_invalid ([bad_candidate, good_candidate] ! 0)
   \<and> (\<exists>fs c'. parse_analysis_result ''GDPR'' scenario_a_bucket
                  (PList (map PDict [bad_candidate, good_candidate])) (\<lambda>n. ''2024-01-01T00:00:00'')
                = Inr (fs, c')
        \<and> length fs = 2
        \<and> dict_get_none (fs ! 0) ''riskScore'' = PInt 150
        \<and> dict_get_none (fs ! 0) ''severity'' = PStr ''SEVERE''
        \<and> fs ! 1 = candidate_finding ''GDPR'' scenario_a_bucket good_candidate
                     ''2024-01-01T00:00:00'')"
proof -
  have l: "(0::nat) < length [bad_candidate, good_candidate]"
    by simp
  have b: "candidate_invalid ([bad_candidate, good_candidate] ! 0)"
    by (simp add: candidate_invalid_def risk_out_of_range_def bad_candidate_def)
  have r: "dict_get bad_candidate ''riskScore'' (PInt 50) = PInt 150"
    "dict_get bad_candidate ''severity'' (PStr ''MEDIUM'') = PStr ''SEVERE''"
    by (simp_all add: dict_get_def bad_candidate_def)
  from invalid_candidate_is_kept [OF l b, of "''GDPR''" scenario_a_bucket
      "\<lambda>n. ''2024-01-01T00:00:00''"]
  obtain fs c' where
    p: "parse_analysis_result ''GDPR'' scenario_a_bucket
          (PList (map PDict [bad_candidate, good_candidate])) (\<lambda>n. ''2024-01-01T00:00:00'')
        = Inr (fs, c')"
    and n: "length fs = length [bad_candidate, good_candidate]"
    and k: "dict_get_none (fs ! 0) ''riskScore''
              = dict_get ([bad_candidate, good_candidate] ! 0) ''riskScore'' (PInt 50)"
           "dict_get_none (fs ! 0) ''severity''
              = dict_get ([bad_candidate, good_candidate] ! 0) ''severity'' (PStr ''MEDIUM'')"
    and a: "\<forall>j < length [bad_candidate, good_candidate].
              fs ! j = candidate_finding ''GDPR'' scenario_a_bucket
                         ([bad_candidate, good_candidate] ! j) ''2024-01-01T00:00:00''"
    by blast
  from a have "fs ! 1 = candidate_finding ''GDPR'' scenario_a_bucket good_candidate
                          ''2024-01-01T00:00:00''"
    by simp
  with p n k r l b show ?thesis
    by simp
qed

text \<open>
  C3, as the claim states it, fails on the answer \<open>[bad, good]\<close> whose first candidate
  has riskScore 150 and severity \<open>SEVERE\<close>: the candidate is invalid, yet the output
  holds its finding, with riskScore 150 and severity \<open>SEVERE\<close>, before the finding of
  the valid candidate.
\<close>

theorem invalid_candidate_counterexample:
  "candidate_invalid bad_candidate
   \<and> findings_of (parse_analysis_result ''GDPR'' scenario_a_bucket
        (PList [PDict bad_candidate, PDict good_candidate]) (\<lambda>n. ''2024-01-01T00:00:00''))
     = Inr [candidate_finding ''GDPR'' scenario_a_bucket bad_candidate ''2024-01-01T00:00:00'',
            candidate_finding ''GDPR'' scenario_a_bucket good_candidate ''2024-01-01T00:00:00'']
   \<and> dict_get_none (candidate_finding ''GDPR'' scenario_a_bucket bad_candidate
        ''2024-01-01T00:00:00'') ''riskScore'' = PInt 150
   \<and> dict_get_none (candidate_finding ''GDPR'' scenario_a_bucket bad_candidate
        ''2024-01-01T00:00:00'') ''severity'' = PStr ''SEVERE''"
  by (simp add: candidate_invalid_def risk_out_of_range_def bad_candidate_def
      parse_analysis_result_def utcnow_isoformat_def findings_of_def
      candidate_finding_def dict_get_none_def dict_get_def)

lemma py_sum_numbers:
  "\<forall>f \<in> set fs. risk_is_number f \<Longrightarrow>
     py_sum (map (\<lambda>finding. dict_get finding ''riskScore'' (PInt 50)) fs) acc
       = Inr (acc + sum_list (map risk_value fs))"
proof (induction fs arbitrary: acc)
  case Nil
  then show ?case by simp
next
  case (Cons f fs)
  then show ?case
    by (auto simp: risk_is_number_def risk_value_def split: sum.splits)
qed

lemma framework_score_expected:
  "\<forall>f \<in> set fs. risk_is_number f \<Longrightarrow> framework_score fs = Inr (expected_score fs)"
  by (simp add: framework_score_def expected_score_def mean_risk_def py_sum_numbers Let_def)

lemma map_of_dict_set: "map_of (dict_set d k v) = (map_of d)(k \<mapsto> v)"
  by (induction d) (auto simp: fun_eq_iff)

lemma keys_dict_set: "fst ` set (dict_set d k v) = insert k (fst ` set d)"
proof (induction d)
  case Nil
  then show ?case by simp
next
  case (Cons p d)
  then show ?case by (cases p) (simp add: insert_commute)
qed

lemma distinct_dict_set: "distinct (map fst d) \<Longrightarrow> distinct (map fst (dict_set d k v))"
proof (induction d)
  case Nil
  then show ?case by simp
next
  case (Cons p d)
  then show ?case by (cases p) (auto simp: keys_dict_set)
qed

lemma score_loop_scored:
  "\<forall>run \<in> set runs. \<forall>f \<in> set (snd run). risk_is_number f \<Longrightarrow>
     score_loop runs st = Inr (fst st @ concat (map snd runs), scored runs (snd st))"
proof (induction runs arbitrary: st)
  case Nil
  then show ?case by (simp add: scored_def)
next
  case (Cons run runs)
  obtain fw ff where r: "run = (fw, ff)" by (cases run)
  with Cons.prems have "framework_score ff = Inr (expected_score ff)"
    by (simp add: framework_score_expected)
  with Cons r show ?case
    by (simp add: scored_def)
qed

lemma map_of_scored:
  "map_of (scored runs sc) fw =
     (case map_of (rev runs) fw of None \<Rightarrow> map_of sc fw | Some ff \<Rightarrow> Some (expected_score ff))"
proof (induction runs arbitrary: sc)
  case Nil
  then show ?case by (simp add: scored_def)
next
  case (Cons run runs)
  have "scored (run # runs) sc = scored runs (dict_set sc (fst run) (expected_score (snd run)))"
    by (simp add: scored_def)
  then show ?case
    by (cases run) (auto simp: Cons.IH map_of_dict_set map_add_def split: option.splits)
qed

lemma distinct_scored: "distinct (map fst sc) \<Longrightarrow> distinct (map fst (scored runs sc))"
proof (induction runs arbitrary: sc)
  case Nil
  then show ?case by (simp add: scored_def)
next
  case (Cons run runs)
  have "scored (run # runs) sc = scored runs (dict_set sc (fst run) (expected_score (snd run)))"
    by (simp add: scored_def)
  then show ?case
    by (simp add: Cons.IH Cons.prems distinct_dict_set)
qed

lemma scored_value:
  assumes "(fw, s) \<in> set (scored runs [])"
  shows "\<exists>ff. (fw, ff) \<in> set runs \<and> s = expected_score ff"
proof -
  have "distinct (map fst (scored runs []))"
    by (simp add: distinct_scored)
  with assms have "map_of (scored runs []) fw = Some s"
    by simp
  then obtain ff where r: "map_of (rev runs) fw = Some ff" and e: "s = expected_score ff"
    by (auto simp: map_of_scored split: option.splits)
  from r have "(fw, ff) \<in> set (rev runs)"
    by (rule map_of_SomeD)
  with e show ?thesis
    by auto
qed

lemma sum_list_bounds:
  fixes xs :: "rat list"
  assumes "\<forall>x \<in> set xs. 0 \<le> x \<and> x \<le> b"
  shows "0 \<le> sum_list xs \<and> sum_list xs \<le> b * of_nat (length xs)"
  using assms by (induction xs) (auto simp: algebra_simps)

lemma mean_bounds:
  fixes xs :: "rat list"
  assumes "\<forall>x \<in> set xs. 0 \<le> x \<and> x \<le> b" and "xs \<noteq> []"
  shows "0 \<le> sum_list xs / of_nat (length xs) \<and> sum_list xs / of_nat (length xs) \<le> b"
proof -
  have n: "(0::rat) < of_nat (length xs)"
    using assms(2) by simp
  from sum_list_bounds [OF assms(1)] n show ?thesis
    by (simp add: pos_divide_le_eq)
qed

lemma risk_in_range_number:
  "risk_in_range f \<Longrightarrow> risk_is_number f \<and> 0 \<le> risk_value f \<and> risk_value f \<le> 100"
  by (auto simp: risk_in_range_def risk_is_number_def risk_value_def split: pyval.splits)

lemma expected_score_bounds:
  assumes "\<forall>f \<in> set ff. risk_in_range f"
  shows "0 \<le> expected_score ff \<and> expected_score ff \<le> 100"
proof (cases "ff = []")
  case True
  then show ?thesis by (simp add: expected_score_def)
next
  case False
  have "\<forall>x \<in> set (map risk_value ff). 0 \<le> x \<and> x \<le> 100"
    using assms risk_in_range_number by auto
  moreover have "map risk_value ff \<noteq> []"
    using False by simp
  ultimately have "0 \<le> mean_risk ff \<and> mean_risk ff \<le> 100"
    unfolding mean_risk_def using mean_bounds [of "map risk_value ff" 100] by simp
  with False show ?thesis
    by (simp add: expected_score_def)
qed

text \<open>
  C6. Let every riskScore of the findings be an integer in [0, 100] (a finding without
  one counts as 50). The loop raises nothing, every per-framework score it returns lies
  in [0, 100], and so does the overall score, which is 100 when there is no framework.
\<close>

theorem scores_within_bounds:
  assumes "\<forall>run \<in> set runs. \<forall>f \<in> set (snd run). risk_in_range f"
  shows "\<exists>scores. score_loop runs ([], []) = Inr (concat (map snd runs), scores)
     \<and> (\<forall>entry \<in> set scores. 0 \<le> snd entry \<and> snd entry \<le> 100)
     \<and> 0 \<le> overall_score scores \<and> overall_score scores \<le> 100"
proof -
  have num: "\<forall>run \<in> set runs. \<forall>f \<in> set (snd run). risk_is_number f"
    using assms risk_in_range_number by blast
  have l: "score_loop runs ([], []) = Inr (concat (map snd runs), scored runs [])"
    using score_loop_scored [OF num, of "([], [])"] by simp
  have b: "\<forall>entry \<in> set (scored runs []). 0 \<le> snd entry \<and> snd entry \<le> 100"
  proof
    fix entry assume "entry \<in> set (scored runs [])"
    then have "(fst entry, snd entry) \<in> set (scored runs [])"
      by simp
    then obtain ff where "(fst entry, ff) \<in> set runs" and s: "snd entry = expected_score ff"
      using scored_value by blast
    then have "\<forall>f \<in> set ff. risk_in_range f"
      using assms by force
    with s show "0 \<le> snd entry \<and> snd entry \<le> 100"
      using expected_score_bounds by simp
  qed
  have o: "0 \<le> overall_score (scored runs []) \<and> overall_score (scored runs []) \<le> 100"
  proof (cases "scored runs [] = []")
    case True
    then show ?thesis by (simp add: overall_score_def)
  next
    case False
    have "\<forall>x \<in> set (map snd (scored runs [])). 0 \<le> x \<and> x \<le> 100"
      using b by simp
    moreover have "map snd (scored runs []) \<noteq> []"
      using False by simp
    ultimately show ?thesis
      using mean_bounds [of "map snd (scored runs [])" 100] False
      by (simp add: overall_score_def)
  qed
  from l b o show ?thesis
    by blast
qed

theorem scores_within_bounds_witness:
  "risk_in_range critical_90 \<and> risk_in_range high_70
   \<and> (\<exists>scores. score_loop [(''GDPR'', [critical_90]), (''SOC2'', [high_70, critical_90])] ([], [])
          = Inr ([critical_90, high_70, critical_90], scores)
        \<and> scores = [(''GDPR'', 10), (''SOC2'', 20)]
        \<and> 0 \<le> overall_score scores \<and> overall_score scores \<le> 100)"
proof -
  have n: "risk_in_range critical_90" "risk_in_range high_70"
    by (simp_all add: risk_in_range_def critical_90_def high_70_def dict_get_def)
  then have h: "\<forall>run \<in> set [(''GDPR'', [critical_90]), (''SOC2'', [high_70, critical_90])].
                  \<forall>f \<in> set (snd run). risk_in_range f"
    by simp
  from scores_within_bounds [OF h] obtain scores where
    l: "score_loop [(''GDPR'', [critical_90]), (''SOC2'', [high_70, critical_90])] ([], [])
          = Inr (concat (map snd [(''GDPR'', [critical_90]), (''SOC2'', [high_70, critical_90])]),
                 scores)"
    and o: "0 \<le> overall_score scores \<and> overall_score scores \<le> 100"
    by blast
  have c: "score_loop [(''GDPR'', [critical_90]), (''SOC2'', [high_70, critical_90])] ([], [])
       = Inr ([critical_90, high_70, critical_90], [(''GDPR'', 10), (''SOC2'', 20)])"
    by (simp add: framework_score_def critical_90_def high_70_def dict_get_def Let_def)
  with l have "scores = [(''GDPR'', 10), (''SOC2'', 20)]"
    by simp
  with n l o show ?thesis
    by simp
qed

lemma severity_bucket_dicts:
  "severity_bucket severity (map PDict fs) = Inr (map PDict (with_severity severity fs))"
  by (induction fs) (simp_all add: with_severity_def dict_get_none_def)

lemma findings_by_severity_dicts:
  "findings_by_severity (map PDict fs) =
     Inr [(''CRITICAL'', map PDict (with_severity ''CRITICAL'' fs)),
          (''HIGH'', map PDict (with_severity ''HIGH'' fs)),
          (''MEDIUM'', map PDict (with_severity ''MEDIUM'' fs)),
          (''LOW'', map PDict (with_severity ''LOW'' fs))]"
  by (simp add: findings_by_severity_def severity_bucket_dicts)

lemma with_severity_sizes:
  "length (with_severity ''CRITICAL'' fs) + length (with_severity ''HIGH'' fs)
     + length (with_severity ''MEDIUM'' fs) + length (with_severity ''LOW'' fs)
   = length (filter has_listed_severity fs)"
  by (induction fs) (auto simp: with_severity_def has_listed_severity_def)

lemma member_with_severity:
  "List.member (map PDict (with_severity severity fs)) (PDict f)
     \<longleftrightarrow> f \<in> set fs \<and> dict_get_none f ''severity'' = PStr severity"
  by (auto simp: with_severity_def)

lemma filter_all_listed:
  "\<forall>f \<in> set fs. has_listed_severity f \<Longrightarrow> filter has_listed_severity fs = fs"
  by (induction fs) auto

text \<open>
  On findings that all carry one of the four severities the buckets are a partition:
  every finding stands in exactly one bucket and the sizes add up to the number of
  findings.
\<close>

lemma severity_buckets_partition_of_listed:
  assumes "\<forall>f \<in> set fs. has_listed_severity f"
  shows "\<exists>buckets. findings_by_severity (map PDict fs) = Inr buckets
     \<and> map fst buckets = [''CRITICAL'', ''HIGH'', ''MEDIUM'', ''LOW'']
     \<and> bucket_sizes buckets = length fs
     \<and> (\<forall>f \<in> set fs. buckets_holding f buckets = 1)"
proof -
  let ?b = "[(''CRITICAL'', map PDict (with_severity ''CRITICAL'' fs)),
          (''HIGH'', map PDict (with_severity ''HIGH'' fs)),
          (''MEDIUM'', map PDict (with_severity ''MEDIUM'' fs)),
          (''LOW'', map PDict (with_severity ''LOW'' fs))]"
  have s: "bucket_sizes ?b = length fs"
    using with_severity_sizes [of fs] filter_all_listed [OF assms]
    by (simp add: bucket_sizes_def)
  have h: "\<forall>f \<in> set fs. buckets_holding f ?b = 1"
  proof
    fix f assume m: "f \<in> set fs"
    then have l: "has_listed_severity f"
      using assms by simp
    from m have m: "\<And>severity. List.member (map PDict (with_severity severity fs)) (PDict f)
                    \<longleftrightarrow> dict_get_none f ''severity'' = PStr severity"
      by (simp only: member_with_severity simp_thms)
    show "buckets_holding f ?b = 1"
      using l unfolding buckets_holding_def has_listed_severity_def
      by (simp only: filter.simps snd_conv m) auto
  qed
  from s h show ?thesis
    by (simp add: findings_by_severity_dicts)
qed

text \<open>
  C4 at the failing input: a finding with severity \<open>CRITICAL\<close> and the finding the
  normalizer makes of a candidate with severity \<open>SEVERE\<close>. The second finding stands
  in no bucket; the four sizes, which the executive summary prints as the total of
  issues, add up to 1, while the metadata of the same report counts 2 findings. The
  claim asks for a partition: every finding in exactly one bucket, the sizes adding up
  to the number of findings.
\<close>

theorem severity_partition_failing_input:
  "findings_by_severity [PDict critical_90, PDict severe_finding]
     = Inr [(''CRITICAL'', [PDict critical_90]), (''HIGH'', []), (''MEDIUM'', []), (''LOW'', [])]
   \<and> bucket_sizes [(''CRITICAL'', [PDict critical_90]), (''HIGH'', []), (''MEDIUM'', []),
                     (''LOW'', [])] = 1
   \<and> length [PDict critical_90, PDict severe_finding] = 2
   \<and> buckets_holding severe_finding
        [(''CRITICAL'', [PDict critical_90]), (''HIGH'', []), (''MEDIUM'', []), (''LOW'', [])] = 0
   \<and> dict_get_none severe_finding ''severity'' = PStr ''SEVERE''
   \<and> map_sum id (\<lambda>content. (by_severity content, dict_get_none (metadata content) ''totalFindings''))
        (fst (create_report_content ''run-1'' [PDict critical_90, PDict severe_finding]
                [(''GDPR'', 10)] 10 [''GDPR''] 1 example_world))
       = Inr ([(''CRITICAL'', 1), (''HIGH'', 0), (''MEDIUM'', 0), (''LOW'', 0)], PInt 2)"
  by (simp add: findings_by_severity_def critical_90_def severe_finding_def
      candidate_finding_def bad_candidate_def scenario_a_bucket_def dict_get_def dict_get_none_def
      bucket_sizes_def buckets_holding_def create_report_content_def uuid4_def utcnow_def
      split_def Let_def)

lemma report_error_fields:
  assumes "fst (report_try_block msg_of gen audit_run_id findings compliance_scores overall'
                  frameworks resources_scanned w) = Inl e"
  shows "dict_get_none (fst (generate_compliance_report msg_of gen audit_run_id findings
            compliance_scores overall' frameworks resources_scanned w)) ''status'' = PStr ''ERROR''"
    and "dict_get_none (fst (generate_compliance_report msg_of gen audit_run_id findings
            compliance_scores overall' frameworks resources_scanned w)) ''auditRunId''
           = PStr audit_run_id"
    and "dict_get_none (fst (generate_compliance_report msg_of gen audit_run_id findings
            compliance_scores overall' frameworks resources_scanned w)) ''error''
           = PStr (py_str_exn msg_of e)"
  using assms
  by (auto simp: generate_compliance_report_def dict_get_none_def dict_get_def split_def Let_def
      split: sum.splits prod.splits)

lemma report_try_block_ok:
  assumes "fst (report_try_block msg_of gen audit_run_id findings compliance_scores overall'
                  frameworks resources_scanned w) = Inr report"
  shows "dict_get_none report ''status'' = PStr ''COMPLETED''"
    and "dict_get_none report ''auditRunId'' = PStr audit_run_id"
    and "map_of report ''error'' = None"
  using assms
  by (auto simp: report_try_block_def dict_get_none_def dict_get_def split_def Let_def
      split: sum.splits prod.splits)

lemma report_ok_fields:
  assumes "fst (report_try_block msg_of gen audit_run_id findings compliance_scores overall'
                  frameworks resources_scanned w) = Inr report"
  shows "fst (generate_compliance_report msg_of gen audit_run_id findings
            compliance_scores overall' frameworks resources_scanned w) = report"
  using assms
  by (auto simp: generate_compliance_report_def split_def split: sum.splits prod.splits)

lemma create_fails_block_fails:
  assumes "fst (create_report_content audit_run_id findings compliance_scores overall'
                  frameworks resources_scanned w) = Inl e"
  shows "fst (report_try_block msg_of gen audit_run_id findings compliance_scores overall'
                  frameworks resources_scanned w) = Inl e"
  using assms
  by (auto simp: report_try_block_def split_def split: sum.splits prod.splits)

lemma upload_refused:
  assumes "\<And>kwargs. put_object gen kwargs = Some e"
  shows "fst (upload_to_s3 msg_of gen pdf_data report_key w)
           = Inl (Exception (''Failed to upload report to S3: '' @ py_str_exn msg_of e))"
  using assms by (simp add: upload_to_s3_def split_def Let_def)

lemma upload_refused_block_fails:
  assumes "fst (create_report_content audit_run_id findings compliance_scores overall'
                  frameworks resources_scanned w) = Inr content"
      and "\<And>kwargs. put_object gen kwargs = Some e"
  shows "fst (report_try_block msg_of gen audit_run_id findings compliance_scores overall'
                  frameworks resources_scanned w)
           = Inl (Exception (''Failed to upload report to S3: '' @ py_str_exn msg_of e))"
proof -
  obtain w1 where c: "create_report_content audit_run_id findings compliance_scores overall'
                  frameworks resources_scanned w = (Inr content, w1)"
    using assms(1) by (metis prod.collapse)
  show ?thesis
    using upload_refused [OF assms(2), of msg_of]
    unfolding report_try_block_def c
    by (auto simp: split_def Let_def split: sum.splits prod.splits)
qed

text \<open>
  C10. \<open>generate_compliance_report\<close> returns a dictionary for every input, every
  outcome of the S3 client and every state of the world: an exception of the
  \<open>try\<close> block never leaves it. The dictionary carries the \<open>auditRunId\<close> it was
  called with. When the \<open>try\<close> block raises, the status is \<open>ERROR\<close> and
  \<open>error\<close> is the message of the exception: this is so when the construction of the
  report content raises, and when the client refuses the upload, where the message is
  the client's, after \<open>Failed to upload report to S3: \<close>. When the block
  completes, the dictionary is the block's, with status \<open>COMPLETED\<close>.
\<close>

theorem generate_compliance_report_never_raises:
  "(let r = fst (generate_compliance_report msg_of gen audit_run_id findings compliance_scores
                   overall' frameworks resources_scanned w);
        block = fst (report_try_block msg_of gen audit_run_id findings compliance_scores
                   overall' frameworks resources_scanned w);
        content = fst (create_report_content audit_run_id findings compliance_scores
                   overall' frameworks resources_scanned w)
    in (dict_get_none r ''status'' = PStr ''COMPLETED'' \<or> dict_get_none r ''status'' = PStr ''ERROR'')
       \<and> dict_get_none r ''auditRunId'' = PStr audit_run_id
       \<and> (\<forall>e. block = Inl e \<longrightarrow>
              dict_get_none r ''status'' = PStr ''ERROR''
              \<and> dict_get_none r ''error'' = PStr (py_str_exn msg_of e))
       \<and> (\<forall>report. block = Inr report \<longrightarrow>
              r = report \<and> dict_get_none r ''status'' = PStr ''COMPLETED''
              \<and> map_of r ''error'' = None)
       \<and> (\<forall>e. content = Inl e \<longrightarrow>
              dict_get_none r ''status'' = PStr ''ERROR''
              \<and> dict_get_none r ''error'' = PStr (py_str_exn msg_of e))
       \<and> (\<forall>e c. content = Inr c \<and> (\<forall>kwargs. put_object gen kwargs = Some e) \<longrightarrow>
              dict_get_none r ''status'' = PStr ''ERROR''
              \<and> dict_get_none r ''error''
                  = PStr (''Failed to upload report to S3: '' @ py_str_exn msg_of e)))"
proof -
  let ?r = "fst (generate_compliance_report msg_of gen audit_run_id findings compliance_scores
                   overall' frameworks resources_scanned w)"
  let ?block = "fst (report_try_block msg_of gen audit_run_id findings compliance_scores
                   overall' frameworks resources_scanned w)"
  let ?content = "fst (create_report_content audit_run_id findings compliance_scores
                   overall' frameworks resources_scanned w)"
  have err: "\<And>e. ?block = Inl e \<Longrightarrow>
              dict_get_none ?r ''status'' = PStr ''ERROR''
              \<and> dict_get_none ?r ''auditRunId'' = PStr audit_run_id
              \<and> dict_get_none ?r ''error'' = PStr (py_str_exn msg_of e)"
    by (simp add: report_error_fields)
  have ok: "\<And>report. ?block = Inr report \<Longrightarrow>
              ?r = report \<and> dict_get_none ?r ''status'' = PStr ''COMPLETED''
              \<and> dict_get_none ?r ''auditRunId'' = PStr audit_run_id
              \<and> map_of ?r ''error'' = None"
    by (simp add: report_ok_fields report_try_block_ok [where msg_of = msg_of and gen = gen and w = w])
  have both: "(dict_get_none ?r ''status'' = PStr ''COMPLETED''
                 \<or> dict_get_none ?r ''status'' = PStr ''ERROR'')
              \<and> dict_get_none ?r ''auditRunId'' = PStr audit_run_id"
  proof (cases ?block)
    case (Inl e)
    with err show ?thesis by blast
  next
    case (Inr report)
    with ok show ?thesis by blast
  qed
  have cf: "\<And>e. ?content = Inl e \<Longrightarrow>
              dict_get_none ?r ''status'' = PStr ''ERROR''
              \<and> dict_get_none ?r ''error'' = PStr (py_str_exn msg_of e)"
    by (simp add: create_fails_block_fails err)
  have uf: "\<And>e c. ?content = Inr c \<Longrightarrow> (\<forall>kwargs. put_object gen kwargs = Some e) \<Longrightarrow>
              dict_get_none ?r ''status'' = PStr ''ERROR''
              \<and> dict_get_none ?r ''error''
                  = PStr (''Failed to upload report to S3: '' @ py_str_exn msg_of e)"
  proof -
    fix e c
    assume c: "?content = Inr c" and p: "\<forall>kwargs. put_object gen kwargs = Some e"
    from p have "\<And>kwargs. put_object gen kwargs = Some e"
      by simp
    from upload_refused_block_fails [OF c this, of msg_of]
    have "?block = Inl (Exception (''Failed to upload report to S3: '' @ py_str_exn msg_of e))" .
    from err [OF this] show "dict_get_none ?r ''status'' = PStr ''ERROR''
              \<and> dict_get_none ?r ''error''
                  = PStr (''Failed to upload report to S3: '' @ py_str_exn msg_of e)"
      by simp
  qed
  from both err ok cf uf show ?thesis
    unfolding Let_def by blast
qed
theorem generate_compliance_report_never_raises_witness:
  "fst (create_report_content ''run-1'' [PStr ''not a finding''] [(''GDPR'', 10)] 10 [''GDPR''] 1
          example_world) = Inl AttributeError
   \<and> dict_get_none (fst (generate_compliance_report example_msg_of accepting_client ''run-1''
          [PStr ''not a finding''] [(''GDPR'', 10)] 10 [''GDPR''] 1 example_world)) ''status''
       = PStr ''ERROR''
   \<and> dict_get_none (fst (generate_compliance_report example_msg_of accepting_client ''run-1''
          [PStr ''not a finding''] [(''GDPR'', 10)] 10 [''GDPR''] 1 example_world)) ''error''
       = PStr ''no attribute get''
   \<and> dict_get_none (fst (generate_compliance_report example_msg_of accepting_client ''run-1''
          [PStr ''not a finding''] [(''GDPR'', 10)] 10 [''GDPR''] 1 example_world)) ''auditRunId''
       = PStr ''run-1''
   \<and> put_object refusing_client [] = Some (ClientError ''AccessDenied'')
   \<and> dict_get_none (fst (generate_compliance_report example_msg_of refusing_client ''run-2''
          [PDict critical_90] [(''GDPR'', 10)] 10 [''GDPR''] 1 example_world)) ''status''
       = PStr ''ERROR''
   \<and> dict_get_none (fst (generate_compliance_report example_msg_of refusing_client ''run-2''
          [PDict critical_90] [(''GDPR'', 10)] 10 [''GDPR''] 1 example_world)) ''error''
       = PStr ''Failed to upload report to S3: AccessDenied''
   \<and> dict_get_none (fst (generate_compliance_report example_msg_of accepting_client ''run-3''
          [PDict critical_90] [(''GDPR'', 10)] 10 [''GDPR''] 1 example_world)) ''status''
       = PStr ''COMPLETED''
   \<and> dict_get_none (fst (generate_compliance_report example_msg_of accepting_client ''run-3''
          [PDict critical_90] [(''GDPR'', 10)] 10 [''GDPR''] 1 example_world)) ''auditRunId''
       = PStr ''run-3''"
proof -
  have c1: "fst (create_report_content ''run-1'' [PStr ''not a finding''] [(''GDPR'', 10)] 10
              [''GDPR''] 1 example_world) = Inl AttributeError"
    by (simp add: create_report_content_def findings_by_severity_def)
  have c2: "\<exists>c. fst (create_report_content ''run-2'' [PDict critical_90] [(''GDPR'', 10)] 10
              [''GDPR''] 1 example_world) = Inr c"
    by (simp add: create_report_content_def findings_by_severity_def critical_90_def
        dict_get_def uuid4_def utcnow_def split_def Let_def)
  have p: "\<forall>kwargs. put_object refusing_client kwargs = Some (ClientError ''AccessDenied'')"
    by (simp add: refusing_client_def)
  have b3: "\<exists>report. fst (report_try_block example_msg_of accepting_client ''run-3''
              [PDict critical_90] [(''GDPR'', 10)] 10 [''GDPR''] 1 example_world) = Inr report"
    by (simp add: report_try_block_def create_report_content_def findings_by_severity_def
        critical_90_def dict_get_def uuid4_def utcnow_def split_def Let_def
        generate_pdf_report_def upload_to_s3_def accepting_client_def)
  have m: "py_str_exn example_msg_of AttributeError = ''no attribute get''"
    "py_str_exn example_msg_of (ClientError ''AccessDenied'') = ''AccessDenied''"
    by (simp_all add: example_msg_of_def)
  note t1 = generate_compliance_report_never_raises [of example_msg_of accepting_client
      "''run-1''" "[PStr ''not a finding'']" "[(''GDPR'', 10)]" 10 "[''GDPR'']" 1 example_world,
      unfolded Let_def]
  note t2 = generate_compliance_report_never_raises [of example_msg_of refusing_client
      "''run-2''" "[PDict critical_90]" "[(''GDPR'', 10)]" 10 "[''GDPR'']" 1 example_world,
      unfolded Let_def]
  note t3 = generate_compliance_report_never_raises [of example_msg_of accepting_client
      "''run-3''" "[PDict critical_90]" "[(''GDPR'', 10)]" 10 "[''GDPR'']" 1 example_world,
      unfolded Let_def]
  from t1 c1 m have r1:
    "dict_get_none (fst (generate_compliance_report example_msg_of accepting_client ''run-1''
          [PStr ''not a finding''] [(''GDPR'', 10)] 10 [''GDPR''] 1 example_world)) ''status''
       = PStr ''ERROR''"
    "dict_get_none (fst (generate_compliance_report example_msg_of accepting_client ''run-1''
          [PStr ''not a finding''] [(''GDPR'', 10)] 10 [''GDPR''] 1 example_world)) ''error''
       = PStr ''no attribute get''"
    "dict_get_none (fst (generate_compliance_report example_msg_of accepting_client ''run-1''
          [PStr ''not a finding''] [(''GDPR'', 10)] 10 [''GDPR''] 1 example_world)) ''auditRunId''
       = PStr ''run-1''"
    by auto
  from t2 c2 p m have r2:
    "dict_get_none (fst (generate_compliance_report example_msg_of refusing_client ''run-2''
          [PDict critical_90] [(''GDPR'', 10)] 10 [''GDPR''] 1 example_world)) ''status''
       = PStr ''ERROR''"
    "dict_get_none (fst (generate_compliance_report example_msg_of refusing_client ''run-2''
          [PDict critical_90] [(''GDPR'', 10)] 10 [''GDPR''] 1 example_world)) ''error''
       = PStr ''Failed to upload report to S3: AccessDenied''"
    by auto
  from t3 b3 have r3:
    "dict_get_none (fst (generate_compliance_report example_msg_of accepting_client ''run-3''
          [PDict critical_90] [(''GDPR'', 10)] 10 [''GDPR''] 1 example_world)) ''status''
       = PStr ''COMPLETED''"
    "dict_get_none (fst (generate_compliance_report example_msg_of accepting_client ''run-3''
          [PDict critical_90] [(''GDPR'', 10)] 10 [''GDPR''] 1 example_world)) ''auditRunId''
       = PStr ''run-3''"
    by auto
  from c1 r1 p r2 r3 show ?thesis
    by simp
qed

end
